theory Spec2Isabelle
  imports Complex_Main
begin

section \<open>The application store (appStore): the two-flag initialization gate\<close>

text \<open>
  The module keeps one mutable \<open>state\<close> object and a list of listeners.
  \<open>notifyListeners\<close> hands a copy of the state to every listener; the model records
  each such broadcast, oldest first, in \<open>notified\<close>. Console output is recorded in
  \<open>app_console\<close>.
\<close>

record AppState =
  user :: "string option"
  isAuthenticated :: bool
  guestModeWarningShown :: bool
  hasGuestData :: bool
  authResolved :: bool
  dataHydrated :: bool
  appInitialized :: bool

record app_store =
  state :: AppState
  notified :: "AppState list"
  app_console :: "string list"

definition initial_state :: AppState where
  "initial_state =
     \<lparr> user = None, isAuthenticated = False, guestModeWarningShown = False,
       hasGuestData = False, authResolved = False, dataHydrated = False,
       appInitialized = False \<rparr>"

definition initial_app_store :: app_store where
  "initial_app_store = \<lparr> state = initial_state, notified = [], app_console = [] \<rparr>"

definition notifyListeners :: "app_store \<Rightarrow> app_store" where
  "notifyListeners a = a\<lparr> notified := notified a @ [state a] \<rparr>"

definition console_log :: "string \<Rightarrow> app_store \<Rightarrow> app_store" where
  "console_log msg a = a\<lparr> app_console := app_console a @ [msg] \<rparr>"

definition checkAndMarkAppInitialized :: "app_store \<Rightarrow> app_store" where
  "checkAndMarkAppInitialized a =
     (if authResolved (state a) \<and> dataHydrated (state a) \<and> \<not> appInitialized (state a)
      then notifyListeners
             (console_log ''App fully initialized!''
               (a\<lparr> state := (state a)\<lparr> appInitialized := True \<rparr> \<rparr>))
      else a)"

definition markAuthResolved :: "app_store \<Rightarrow> app_store" where
  "markAuthResolved a =
     checkAndMarkAppInitialized
       (console_log ''Auth resolved'' (a\<lparr> state := (state a)\<lparr> authResolved := True \<rparr> \<rparr>))"

definition markDataHydrated :: "app_store \<Rightarrow> app_store" where
  "markDataHydrated a =
     checkAndMarkAppInitialized
       (console_log ''Data hydrated'' (a\<lparr> state := (state a)\<lparr> dataHydrated := True \<rparr> \<rparr>))"

definition resetInitialization :: "app_store \<Rightarrow> app_store" where
  "resetInitialization a =
     notifyListeners
       (console_log ''Initialization flags reset''
         (a\<lparr> state := (state a)\<lparr> authResolved := False, dataHydrated := False,
                                  appInitialized := False \<rparr> \<rparr>))"

datatype init_call = MarkAuthResolved | MarkDataHydrated | ResetInitialization

fun init_step :: "init_call \<Rightarrow> app_store \<Rightarrow> app_store" where
  "init_step MarkAuthResolved a = markAuthResolved a"
| "init_step MarkDataHydrated a = markDataHydrated a"
| "init_step ResetInitialization a = resetInitialization a"

definition init_run :: "init_call list \<Rightarrow> app_store \<Rightarrow> app_store" where
  "init_run calls a = foldl (\<lambda>s c. init_step c s) a calls"

text \<open>
  A broadcast whose snapshot has \<open>appInitialized\<close> set is the "initialized" notification.
  \<open>fires_once\<close> holds of a broadcast history in which no two of them are adjacent: among
  the three calls modelled here only \<open>resetInitialization\<close> broadcasts anything else, so
  this says that a reset separates any two "initialized" notifications.
\<close>

fun fires_once :: "AppState list \<Rightarrow> bool" where
  "fires_once [] = True"
| "fires_once [x] = True"
| "fires_once (x # y # ns) = (\<not> (appInitialized x \<and> appInitialized y) \<and> fires_once (y # ns))"

definition gate_inv :: "app_store \<Rightarrow> bool" where
  "gate_inv a =
     ((appInitialized (state a) = (authResolved (state a) \<and> dataHydrated (state a)))
      \<and> fires_once (notified a)
      \<and> (notified a = [] \<or> appInitialized (last (notified a)) = appInitialized (state a)))"

section \<open>Media types (types/Media) and the \<open>user_media\<close> table (types/Database)\<close>

text \<open>
  JavaScript numbers that hold identifiers and counts (\<open>tmdbId\<close>, seasons, episodes,
  runtime) are \<open>int\<close>; \<open>rating\<close> and the locally generated \<open>id\<close> are \<open>real\<close>.
  A field that may be \<open>undefined\<close> or \<open>null\<close> is an \<open>option\<close>, both read as \<open>None\<close>.
  The fields called \<open>id\<close> in the source are \<open>id_row\<close> and \<open>id_local\<close> here.
\<close>

datatype MediaType = Movie | Tv

datatype WatchStatus = Want_to_watch | Watching | Completed

text \<open>The columns a client supplies on insert (\<open>Omit<Insert, 'user_id'>\<close>).\<close>

record UserMediaInsert =
  tmdb_id :: int
  media_type :: MediaType
  status :: WatchStatus
  current_season :: "int option"
  current_episode :: "int option"
  title :: string
  poster_path :: "string option"
  release_year :: string
  rating :: real
  overview :: "string option"
  runtime :: "int option"
  number_of_seasons :: "int option"
  number_of_episodes :: "int option"

text \<open>A row of \<open>user_media\<close>: the supplied columns and those the database fills in.\<close>

record UserMedia = UserMediaInsert +
  id_row :: string
  user_id :: string
  created_at :: string
  updated_at :: string

record MediaItem =
  id_local :: real
  tmdbId :: int
  title :: string
  mediaType :: MediaType
  posterPath :: "string option"
  releaseYear :: string
  rating :: real
  status :: WatchStatus
  addedAt :: string
  currentSeason :: "int option"
  currentEpisode :: "int option"
  overview :: "string option"
  runtime :: "int option"
  numberOfSeasons :: "int option"
  numberOfEpisodes :: "int option"

record UserMediaStore =
  want_to_watch :: "MediaItem list"
  watching :: "MediaItem list"
  completed :: "MediaItem list"

text \<open>\<open>store[status]\<close>, \<open>store[status] = xs\<close> and \<open>store[status].push(item)\<close>.\<close>

fun store_get :: "WatchStatus \<Rightarrow> UserMediaStore \<Rightarrow> MediaItem list" where
  "store_get Want_to_watch st = want_to_watch st"
| "store_get Watching st = watching st"
| "store_get Completed st = completed st"

fun store_set :: "WatchStatus \<Rightarrow> MediaItem list \<Rightarrow> UserMediaStore \<Rightarrow> UserMediaStore" where
  "store_set Want_to_watch xs st = st\<lparr> want_to_watch := xs \<rparr>"
| "store_set Watching xs st = st\<lparr> watching := xs \<rparr>"
| "store_set Completed xs st = st\<lparr> completed := xs \<rparr>"

definition push :: "WatchStatus \<Rightarrow> MediaItem \<Rightarrow> UserMediaStore \<Rightarrow> UserMediaStore" where
  "push s item st = store_set s (store_get s st @ [item]) st"

definition empty_collection :: UserMediaStore where
  "empty_collection = \<lparr> want_to_watch = [], watching = [], completed = [] \<rparr>"

text \<open>\<open>[...store.want_to_watch, ...store.watching, ...store.completed]\<close>\<close>

definition all_items :: "UserMediaStore \<Rightarrow> MediaItem list" where
  "all_items st = want_to_watch st @ watching st @ completed st"

text \<open>The predicate \<open>i.tmdbId === tmdbId && i.mediaType === mediaType\<close>.\<close>

definition has_key :: "int \<Rightarrow> MediaType \<Rightarrow> MediaItem \<Rightarrow> bool" where
  "has_key t m i = (tmdbId i = t \<and> mediaType i = m)"

definition item_key :: "MediaItem \<Rightarrow> int \<times> MediaType" where
  "item_key i = (tmdbId i, mediaType i)"

definition row_key :: "UserMedia \<Rightarrow> int \<times> MediaType" where
  "row_key r = (tmdb_id r, media_type r)"

section \<open>The environment: browser, module state and the remote service\<close>

datatype failure =
  SupabaseError | UserNotAuthenticated | MustBeLoggedIn | SecurityError | SyntaxError

datatype console_line = Warn string | Err string

text \<open>
  The text kept under \<open>STORAGE_KEY\<close>: either \<open>JSON.stringify\<close> of a store, which
  \<open>JSON.parse\<close> reads back, or text that \<open>JSON.parse\<close> rejects. Text that parses to
  a value of another shape is not modelled.
\<close>

datatype stored_text = Malformed | Encoded UserMediaStore

datatype update_fields = Status_update WatchStatus | Progress_update int int

text \<open>The calls made on \<open>userMediaService\<close>, in the order in which they are made.\<close>

datatype request =
  GetAllUserMedia
  | AddUserMedia UserMediaInsert
  | UpdateUserMedia int MediaType update_fields
  | RemoveUserMedia int MediaType

text \<open>
  \<^item> \<open>window_defined\<close>: \<open>typeof window !== 'undefined'\<close>; \<open>getItem_throws\<close> and
    \<open>setItem_throws\<close>: whether \<open>localStorage.getItem\<close> and \<open>localStorage.setItem\<close>
    throw; \<open>localStorage\<close>: the entry under \<open>STORAGE_KEY\<close>; \<open>dispatched\<close>: the number
    of \<open>mediaStoreUpdate\<close> events dispatched; \<open>console\<close>: warnings and errors printed.
  \<^item> \<open>id_source\<close>, \<open>ids_drawn\<close>: the successive values of \<open>Date.now() + Math.random()\<close>
    and how many have been taken.
  \<^item> \<open>emptyStore\<close>: the module-level object of that name. \<open>getLocalStore\<close> returns this
    very object, so what callers do to the returned store is done to it.
  \<^item> \<open>currentUser\<close>: the session store's user.
  \<^item> \<open>auth_user\<close>: what \<open>supabase.auth.getUser()\<close> reports; \<open>user_media\<close>: the rows
    visible to that user, in the order \<open>getAllUserMedia\<close> lists them (newest first);
    \<open>refused n\<close>: the service call number \<open>n\<close> comes back with an error;
    \<open>requests\<close>: the service calls made so far; \<open>new_uuid\<close> and \<open>timestamp\<close>: the
    identifier and time stamp the call number \<open>n\<close> would be given.
\<close>

record world =
  window_defined :: bool
  getItem_throws :: bool
  setItem_throws :: bool
  localStorage :: "stored_text option"
  dispatched :: nat
  console :: "console_line list"
  id_source :: "nat \<Rightarrow> real"
  ids_drawn :: nat
  emptyStore :: UserMediaStore
  currentUser :: "string option"
  auth_user :: "string option"
  user_media :: "UserMedia list"
  refused :: "nat \<Rightarrow> bool"
  requests :: "request list"
  new_uuid :: "nat \<Rightarrow> string"
  timestamp :: "nat \<Rightarrow> string"

type_synonym 'a outcome = "(failure + 'a) \<times> world"

definition console_warn :: "string \<Rightarrow> world \<Rightarrow> world" where
  "console_warn msg w = w\<lparr> console := console w @ [Warn msg] \<rparr>"

definition console_error :: "string \<Rightarrow> world \<Rightarrow> world" where
  "console_error msg w = w\<lparr> console := console w @ [Err msg] \<rparr>"

definition isLoggedIn :: "world \<Rightarrow> bool" where
  "isLoggedIn w = (currentUser w \<noteq> None)"

section \<open>The remote service (services/userMediaService)\<close>

definition issue :: "request \<Rightarrow> world \<Rightarrow> world" where
  "issue r w = w\<lparr> requests := requests w @ [r] \<rparr>"

definition getAllUserMedia :: "world \<Rightarrow> (UserMedia list) outcome" where
  "getAllUserMedia w =
     (let w1 = issue GetAllUserMedia w in
      if refused w (length (requests w))
      then (Inl SupabaseError, console_error ''Error fetching user media:'' w1)
      else (Inr (user_media w1), w1))"

definition new_row :: "world \<Rightarrow> nat \<Rightarrow> string \<Rightarrow> UserMediaInsert \<Rightarrow> UserMedia" where
  "new_row w n u d =
     \<lparr> tmdb_id = tmdb_id d, media_type = media_type d, status = UserMediaInsert.status d,
       current_season = current_season d, current_episode = current_episode d,
       title = UserMediaInsert.title d, poster_path = poster_path d,
       release_year = release_year d, rating = UserMediaInsert.rating d,
       overview = UserMediaInsert.overview d, runtime = UserMediaInsert.runtime d,
       number_of_seasons = number_of_seasons d, number_of_episodes = number_of_episodes d,
       id_row = new_uuid w n, user_id = u, created_at = timestamp w n,
       updated_at = timestamp w n \<rparr>"

definition addUserMedia :: "UserMediaInsert \<Rightarrow> world \<Rightarrow> UserMedia outcome" where
  "addUserMedia mediaData w =
     (let n = length (requests w); w1 = issue (AddUserMedia mediaData) w in
      case auth_user w of
        None \<Rightarrow> (Inl UserNotAuthenticated, w1)
      | Some u \<Rightarrow>
          if refused w n
          then (Inl SupabaseError, console_error ''Error adding user media:'' w1)
          else (Inr (new_row w n u mediaData),
                w1\<lparr> user_media := new_row w n u mediaData # user_media w1 \<rparr>))"

definition matches_row :: "int \<Rightarrow> MediaType \<Rightarrow> UserMedia \<Rightarrow> bool" where
  "matches_row t m r = (tmdb_id r = t \<and> media_type r = m)"

fun apply_update :: "update_fields \<Rightarrow> string \<Rightarrow> UserMedia \<Rightarrow> UserMedia" where
  "apply_update (Status_update s) ts r = r\<lparr> UserMediaInsert.status := s, updated_at := ts \<rparr>"
| "apply_update (Progress_update cs ce) ts r =
     r\<lparr> current_season := Some cs, current_episode := Some ce, updated_at := ts \<rparr>"

text \<open>\<open>.single()\<close> turns a result of no row or of several rows into an error.\<close>

definition updateUserMedia ::
  "int \<Rightarrow> MediaType \<Rightarrow> update_fields \<Rightarrow> world \<Rightarrow> UserMedia outcome" where
  "updateUserMedia t m updates w =
     (let n = length (requests w); w1 = issue (UpdateUserMedia t m updates) w in
      if refused w n
      then (Inl SupabaseError, console_error ''Error updating user media:'' w1)
      else case filter (matches_row t m) (user_media w1) of
          [r] \<Rightarrow>
            (Inr (apply_update updates (timestamp w n) r),
             w1\<lparr> user_media :=
                   map (\<lambda>r. if matches_row t m r
                             then apply_update updates (timestamp w n) r else r)
                     (user_media w1) \<rparr>)
        | _ \<Rightarrow> (Inl SupabaseError, console_error ''Error updating user media:'' w1))"

definition updateMediaStatus :: "int \<Rightarrow> MediaType \<Rightarrow> WatchStatus \<Rightarrow> world \<Rightarrow> UserMedia outcome" where
  "updateMediaStatus t m s w = updateUserMedia t m (Status_update s) w"

definition updateTVProgress :: "int \<Rightarrow> int \<Rightarrow> int \<Rightarrow> world \<Rightarrow> UserMedia outcome" where
  "updateTVProgress t cs ce w = updateUserMedia t Tv (Progress_update cs ce) w"

definition removeUserMedia :: "int \<Rightarrow> MediaType \<Rightarrow> world \<Rightarrow> unit outcome" where
  "removeUserMedia t m w =
     (let n = length (requests w); w1 = issue (RemoveUserMedia t m) w in
      if refused w n
      then (Inl SupabaseError, console_error ''Error removing user media:'' w1)
      else (Inr (), w1\<lparr> user_media := filter (\<lambda>r. \<not> matches_row t m r) (user_media w1) \<rparr>))"

section \<open>The media store (store/mediaStore)\<close>

subsection \<open>Reading and writing the local cache\<close>

text \<open>
  What \<open>getLocalStore\<close> hands to its caller is a reference: to the module's
  \<open>emptyStore\<close> object, or to the fresh object \<open>JSON.parse\<close> built. \<open>deref\<close> reads
  through it and \<open>write_back\<close> is an assignment or \<open>push\<close> through it.
\<close>

datatype store_ref = EmptyStore_object | Parsed UserMediaStore

fun deref :: "store_ref \<Rightarrow> world \<Rightarrow> UserMediaStore" where
  "deref EmptyStore_object w = emptyStore w"
| "deref (Parsed st) w = st"

fun write_back :: "store_ref \<Rightarrow> UserMediaStore \<Rightarrow> world \<Rightarrow> world" where
  "write_back EmptyStore_object st w = w\<lparr> emptyStore := st \<rparr>"
| "write_back (Parsed old) st w = w"

definition localStorage_getItem :: "world \<Rightarrow> failure + stored_text option" where
  "localStorage_getItem w = (if getItem_throws w then Inl SecurityError else Inr (localStorage w))"

fun JSON_parse :: "stored_text \<Rightarrow> failure + UserMediaStore" where
  "JSON_parse Malformed = Inl SyntaxError"
| "JSON_parse (Encoded st) = Inr st"

definition JSON_stringify :: "UserMediaStore \<Rightarrow> stored_text" where
  "JSON_stringify st = Encoded st"

text \<open>The body of the \<open>try\<close> in \<open>getLocalStore\<close>.\<close>

definition read_stored :: "world \<Rightarrow> failure + store_ref" where
  "read_stored w =
     (case localStorage_getItem w of
        Inl e \<Rightarrow> Inl e
      | Inr None \<Rightarrow> Inr EmptyStore_object
      | Inr (Some stored) \<Rightarrow>
          (case JSON_parse stored of Inl e \<Rightarrow> Inl e | Inr st \<Rightarrow> Inr (Parsed st)))"

definition getLocalStore :: "world \<Rightarrow> store_ref outcome" where
  "getLocalStore w =
     (if \<not> window_defined w then (Inr EmptyStore_object, w)
      else case read_stored w of
          Inl e \<Rightarrow> (Inr EmptyStore_object, console_error ''Error reading from localStorage:'' w)
        | Inr r \<Rightarrow> (Inr r, w))"

definition saveLocalStore :: "UserMediaStore \<Rightarrow> world \<Rightarrow> world" where
  "saveLocalStore st w =
     (if \<not> window_defined w then w
      else if setItem_throws w then console_error ''Error saving to localStorage:'' w
      else w\<lparr> localStorage := Some (JSON_stringify st), dispatched := Suc (dispatched w) \<rparr>)"

subsection \<open>Conversions\<close>

text \<open>The first argument is the value of \<open>Date.now() + Math.random()\<close>.\<close>

definition supabaseToMediaItem :: "real \<Rightarrow> UserMedia \<Rightarrow> MediaItem" where
  "supabaseToMediaItem fresh row =
     \<lparr> id_local = fresh, tmdbId = tmdb_id row, title = UserMediaInsert.title row,
       mediaType = media_type row, posterPath = poster_path row,
       releaseYear = release_year row, rating = UserMediaInsert.rating row,
       status = UserMediaInsert.status row, addedAt = created_at row,
       currentSeason = current_season row, currentEpisode = current_episode row,
       overview = UserMediaInsert.overview row, runtime = UserMediaInsert.runtime row,
       numberOfSeasons = number_of_seasons row, numberOfEpisodes = number_of_episodes row \<rparr>"

definition mediaItemToSupabase :: "MediaItem \<Rightarrow> UserMediaInsert" where
  "mediaItemToSupabase item =
     \<lparr> tmdb_id = tmdbId item, media_type = mediaType item, status = MediaItem.status item,
       current_season = currentSeason item, current_episode = currentEpisode item,
       title = MediaItem.title item, poster_path = posterPath item,
       release_year = releaseYear item, rating = MediaItem.rating item,
       overview = MediaItem.overview item, runtime = MediaItem.runtime item,
       number_of_seasons = numberOfSeasons item, number_of_episodes = numberOfEpisodes item \<rparr>"

subsection \<open>loadFromSupabase\<close>

text \<open>The \<open>forEach\<close> over the fetched rows; each row takes one fresh \<open>id\<close>.\<close>

fun fill_store :: "UserMedia list \<Rightarrow> UserMediaStore \<Rightarrow> world \<Rightarrow> UserMediaStore \<times> world" where
  "fill_store [] store w = (store, w)"
| "fill_store (row # rows) store w =
     (let item = supabaseToMediaItem (id_source w (ids_drawn w)) row
      in fill_store rows (push (MediaItem.status item) item store)
           (w\<lparr> ids_drawn := Suc (ids_drawn w) \<rparr>))"

definition loadFromSupabase :: "world \<Rightarrow> unit outcome" where
  "loadFromSupabase w =
     (if \<not> isLoggedIn w then (Inr (), w)
      else case getAllUserMedia w of
          (Inl e, w1) \<Rightarrow> (Inr (), console_error ''Error loading from Supabase:'' w1)
        | (Inr media, w1) \<Rightarrow>
            (case fill_store media empty_collection w1 of
               (store, w2) \<Rightarrow> (Inr (), saveLocalStore store w2)))"

subsection \<open>addToList, removeFromList, updateStatus, updateProgress\<close>

text \<open>The part of \<open>addToList\<close> after the remote step ("Update local cache").\<close>

definition addToList_local :: "MediaItem \<Rightarrow> world \<Rightarrow> unit outcome" where
  "addToList_local item w =
     (case getLocalStore w of
        (Inl e, w1) \<Rightarrow> (Inl e, w1)
      | (Inr r, w1) \<Rightarrow>
          if list_ex (has_key (tmdbId item) (mediaType item)) (all_items (deref r w1))
          then (Inr (), console_warn ''Item already in list'' w1)
          else (Inr (),
                saveLocalStore (push (MediaItem.status item) item (deref r w1))
                  (write_back r (push (MediaItem.status item) item (deref r w1)) w1)))"

definition addToList :: "MediaItem \<Rightarrow> world \<Rightarrow> unit outcome" where
  "addToList item w =
     (if isLoggedIn w
      then case addUserMedia (mediaItemToSupabase item) w of
          (Inl e, w1) \<Rightarrow> (Inl e, console_error ''Error adding to Supabase:'' w1)
        | (Inr row, w1) \<Rightarrow> addToList_local item w1
      else addToList_local item w)"

definition without_key :: "int \<Rightarrow> MediaType \<Rightarrow> UserMediaStore \<Rightarrow> UserMediaStore" where
  "without_key t m st =
     \<lparr> want_to_watch = filter (\<lambda>i. \<not> has_key t m i) (want_to_watch st),
       watching = filter (\<lambda>i. \<not> has_key t m i) (watching st),
       completed = filter (\<lambda>i. \<not> has_key t m i) (completed st) \<rparr>"

definition removeFromList_local :: "int \<Rightarrow> MediaType \<Rightarrow> world \<Rightarrow> unit outcome" where
  "removeFromList_local t m w =
     (case getLocalStore w of
        (Inl e, w1) \<Rightarrow> (Inl e, w1)
      | (Inr r, w1) \<Rightarrow>
          (Inr (),
           saveLocalStore (without_key t m (deref r w1))
             (write_back r (without_key t m (deref r w1)) w1)))"

definition removeFromList :: "int \<Rightarrow> MediaType \<Rightarrow> world \<Rightarrow> unit outcome" where
  "removeFromList t m w =
     (if isLoggedIn w
      then case removeUserMedia t m w of
          (Inl e, w1) \<Rightarrow> (Inl e, console_error ''Error removing from Supabase:'' w1)
        | (Inr u, w1) \<Rightarrow> removeFromList_local t m w1
      else removeFromList_local t m w)"

text \<open>
  The loop "Find item in all lists" of \<open>updateStatus\<close>: the first list, in the order
  given, that holds an item with the key loses every item with that key, and the first
  such item is the one found.
\<close>

fun find_and_remove ::
  "WatchStatus list \<Rightarrow> int \<Rightarrow> MediaType \<Rightarrow> UserMediaStore \<Rightarrow> MediaItem option \<times> UserMediaStore" where
  "find_and_remove [] t m st = (None, st)"
| "find_and_remove (s # ss) t m st =
     (case find (has_key t m) (store_get s st) of
        Some item \<Rightarrow> (Some item, store_set s (filter (\<lambda>i. \<not> has_key t m i) (store_get s st)) st)
      | None \<Rightarrow> find_and_remove ss t m st)"

definition updateStatus_local :: "int \<Rightarrow> MediaType \<Rightarrow> WatchStatus \<Rightarrow> world \<Rightarrow> unit outcome" where
  "updateStatus_local t m newStatus w =
     (case getLocalStore w of
        (Inl e, w1) \<Rightarrow> (Inl e, w1)
      | (Inr r, w1) \<Rightarrow>
          (case find_and_remove [Want_to_watch, Watching, Completed] t m (deref r w1) of
             (None, st) \<Rightarrow> (Inr (), console_warn ''Item not found in any list'' w1)
           | (Some item, st) \<Rightarrow>
               (Inr (),
                saveLocalStore (push newStatus (item\<lparr> MediaItem.status := newStatus \<rparr>) st)
                  (write_back r (push newStatus (item\<lparr> MediaItem.status := newStatus \<rparr>) st) w1))))"

definition updateStatus :: "int \<Rightarrow> MediaType \<Rightarrow> WatchStatus \<Rightarrow> world \<Rightarrow> unit outcome" where
  "updateStatus t m newStatus w =
     (if isLoggedIn w
      then case updateMediaStatus t m newStatus w of
          (Inl e, w1) \<Rightarrow> (Inl e, console_error ''Error updating status in Supabase:'' w1)
        | (Inr row, w1) \<Rightarrow> updateStatus_local t m newStatus w1
      else updateStatus_local t m newStatus w)"

text \<open>\<open>xs.find(p)\<close> followed by assignments to the fields of the item found.\<close>

fun update_first :: "('a \<Rightarrow> bool) \<Rightarrow> ('a \<Rightarrow> 'a) \<Rightarrow> 'a list \<Rightarrow> 'a list" where
  "update_first p f [] = []"
| "update_first p f (x # xs) = (if p x then f x # xs else x # update_first p f xs)"

fun find_and_set_progress ::
  "WatchStatus list \<Rightarrow> int \<Rightarrow> MediaType \<Rightarrow> int \<Rightarrow> int \<Rightarrow> UserMediaStore \<Rightarrow> bool \<times> UserMediaStore" where
  "find_and_set_progress [] t m cs ce st = (False, st)"
| "find_and_set_progress (s # ss) t m cs ce st =
     (case find (has_key t m) (store_get s st) of
        Some item \<Rightarrow>
          (True,
           store_set s
             (update_first (has_key t m)
                (\<lambda>i. i\<lparr> currentSeason := Some cs, currentEpisode := Some ce \<rparr>) (store_get s st))
             st)
      | None \<Rightarrow> find_and_set_progress ss t m cs ce st)"

definition updateProgress_local :: "int \<Rightarrow> MediaType \<Rightarrow> int \<Rightarrow> int \<Rightarrow> world \<Rightarrow> unit outcome" where
  "updateProgress_local t m cs ce w =
     (case getLocalStore w of
        (Inl e, w1) \<Rightarrow> (Inl e, w1)
      | (Inr r, w1) \<Rightarrow>
          (case find_and_set_progress [Want_to_watch, Watching, Completed] t m cs ce (deref r w1) of
             (True, st) \<Rightarrow> (Inr (), saveLocalStore st (write_back r st w1))
           | (False, st) \<Rightarrow> (Inr (), console_warn ''Item not found for progress update'' w1)))"

definition updateProgress :: "int \<Rightarrow> MediaType \<Rightarrow> int \<Rightarrow> int \<Rightarrow> world \<Rightarrow> unit outcome" where
  "updateProgress t m cs ce w =
     (if m \<noteq> Tv then (Inr (), console_warn ''Progress tracking is only for TV series'' w)
      else if isLoggedIn w
      then case updateTVProgress t cs ce w of
          (Inl e, w1) \<Rightarrow> (Inl e, console_error ''Error updating progress in Supabase:'' w1)
        | (Inr row, w1) \<Rightarrow> updateProgress_local t m cs ce w1
      else updateProgress_local t m cs ce w)"

subsection \<open>Reading the cache\<close>

text \<open>
  The store \<open>getLocalStore\<close> yields, read through its reference. The readers below
  leave out the console line that a read of a malformed entry prints.
\<close>

definition cached :: "world \<Rightarrow> UserMediaStore" where
  "cached w = (case getLocalStore w of (Inl e, w1) \<Rightarrow> empty_collection | (Inr r, w1) \<Rightarrow> deref r w1)"

definition getByStatus :: "WatchStatus \<Rightarrow> world \<Rightarrow> MediaItem list" where
  "getByStatus s w = store_get s (cached w)"

definition getAllItems :: "world \<Rightarrow> MediaItem list" where
  "getAllItems w = all_items (cached w)"

definition isInList :: "int \<Rightarrow> MediaType \<Rightarrow> world \<Rightarrow> bool" where
  "isInList t m w = list_ex (has_key t m) (all_items (cached w))"

subsection \<open>migrateGuestDataToSupabase\<close>

text \<open>The loop "Migrate each item to Supabase"; the second argument is \<open>migratedCount\<close>.\<close>

fun migrate_items :: "MediaItem list \<Rightarrow> nat \<Rightarrow> world \<Rightarrow> nat \<times> world" where
  "migrate_items [] migratedCount w = (migratedCount, w)"
| "migrate_items (item # items) migratedCount w =
     (case addUserMedia (mediaItemToSupabase item) w of
        (Inr row, w1) \<Rightarrow> migrate_items items (Suc migratedCount) w1
      | (Inl e, w1) \<Rightarrow> migrate_items items migratedCount (console_error ''Error migrating item:'' w1))"

definition migrateGuestDataToSupabase :: "world \<Rightarrow> nat outcome" where
  "migrateGuestDataToSupabase w =
     (if \<not> isLoggedIn w then (Inl MustBeLoggedIn, w)
      else case getLocalStore w of
          (Inl e, w1) \<Rightarrow> (Inl e, w1)
        | (Inr r, w1) \<Rightarrow>
            if length (all_items (deref r w1)) = 0 then (Inr 0, w1)
            else (case migrate_items (all_items (deref r w1)) 0 w1 of
                    (migratedCount, w2) \<Rightarrow>
                      (case loadFromSupabase w2 of
                         (Inl e, w3) \<Rightarrow> (Inl e, w3)
                       | (Inr u, w3) \<Rightarrow> (Inr migratedCount, w3))))"

section \<open>Auxiliary definitions for the proofs, and sample data\<close>

text \<open>The two components of what \<open>getLocalStore\<close> returns.\<close>

definition local_ref :: "world \<Rightarrow> store_ref" where
  "local_ref w = (case getLocalStore w of (Inl e, w1) \<Rightarrow> EmptyStore_object | (Inr r, w1) \<Rightarrow> r)"

definition after_read :: "world \<Rightarrow> world" where
  "after_read w = snd (getLocalStore w)"

text \<open>
  A page that has just been loaded in a browser with nothing stored, nobody signed in and
  the service reachable; the same with a signed-in user; and an item.
\<close>

definition fresh_page :: world where
  "fresh_page =
     \<lparr> window_defined = True, getItem_throws = False, setItem_throws = False,
       localStorage = None, dispatched = 0, console = [], id_source = (\<lambda>n. real n),
       ids_drawn = 0, emptyStore = empty_collection, currentUser = None, auth_user = None,
       user_media = [], refused = (\<lambda>n. False), requests = [],
       new_uuid = (\<lambda>n. ''uuid''), timestamp = (\<lambda>n. ''2025-01-01T00:00:00Z'') \<rparr>"

definition signed_in :: "world \<Rightarrow> world" where
  "signed_in w = w\<lparr> currentUser := Some ''user'', auth_user := Some ''user'' \<rparr>"

definition sample_item :: "int \<Rightarrow> MediaType \<Rightarrow> WatchStatus \<Rightarrow> MediaItem" where
  "sample_item t m s =
     \<lparr> id_local = 0, tmdbId = t, title = ''title'', mediaType = m, posterPath = None,
       releaseYear = ''1999'', rating = 8, status = s, addedAt = ''2024-12-31T00:00:00Z'',
       currentSeason = None, currentEpisode = None, overview = None, runtime = None,
       numberOfSeasons = None, numberOfEpisodes = None \<rparr>"

definition sample_row :: "int \<Rightarrow> MediaType \<Rightarrow> WatchStatus \<Rightarrow> UserMedia" where
  "sample_row t m s = new_row fresh_page 0 ''user'' (mediaItemToSupabase (sample_item t m s))"

text \<open>A guest's stored collection of three items, for the migration example.\<close>

definition guest_ABC :: world where
  "guest_ABC =
     fresh_page\<lparr> localStorage := Some (Encoded
       \<lparr> want_to_watch = [sample_item 1 Movie Want_to_watch, sample_item 2 Movie Want_to_watch],
         watching = [sample_item 3 Tv Watching], completed = [] \<rparr>) \<rparr>"

section \<open>Notions used to state the properties\<close>

text \<open>A browser whose \<open>localStorage\<close> can be read and written.\<close>

definition storage_works :: "world \<Rightarrow> bool" where
  "storage_works w = (window_defined w \<and> \<not> getItem_throws w \<and> \<not> setItem_throws w)"

subsection \<open>Sequences of calls made by a guest\<close>

datatype store_call =
  AddToList MediaItem | RemoveFromList int MediaType | UpdateStatus int MediaType WatchStatus

fun perform :: "store_call \<Rightarrow> world \<Rightarrow> unit outcome" where
  "perform (AddToList item) w = addToList item w"
| "perform (RemoveFromList t m) w = removeFromList t m w"
| "perform (UpdateStatus t m newStatus) w = updateStatus t m newStatus w"

definition perform_all :: "store_call list \<Rightarrow> world \<Rightarrow> world" where
  "perform_all calls w = foldl (\<lambda>v c. snd (perform c v)) w calls"

text \<open>
  The keys added and not subsequently removed: an add puts the key of its item in, a
  remove takes its key out, a change of status leaves the set as it is.
\<close>

fun track :: "(int \<times> MediaType) set \<Rightarrow> store_call \<Rightarrow> (int \<times> MediaType) set" where
  "track K (AddToList item) = insert (item_key item) K"
| "track K (RemoveFromList t m) = K - {(t, m)}"
| "track K (UpdateStatus t m newStatus) = K"

definition added_not_removed :: "store_call list \<Rightarrow> (int \<times> MediaType) set" where
  "added_not_removed calls = foldl track {} calls"

definition keys_of :: "UserMediaStore \<Rightarrow> (int \<times> MediaType) list" where
  "keys_of st = map item_key (all_items st)"

text \<open>What a call does to the cached store when it is made by a guest.\<close>

definition effect :: "store_call \<Rightarrow> UserMediaStore \<Rightarrow> UserMediaStore" where
  "effect c st =
     (case c of
        AddToList item \<Rightarrow>
          if list_ex (has_key (tmdbId item) (mediaType item)) (all_items st) then st
          else push (MediaItem.status item) item st
      | RemoveFromList t m \<Rightarrow> without_key t m st
      | UpdateStatus t m newStatus \<Rightarrow>
          (case find_and_remove [Want_to_watch, Watching, Completed] t m st of
             (None, st') \<Rightarrow> st
           | (Some item, st') \<Rightarrow> push newStatus (item\<lparr> MediaItem.status := newStatus \<rparr>) st'))"

subsection \<open>The status partition of the remote collection\<close>

text \<open>
  The items made from the rows, the row at position \<open>k\<close> taking the fresh number \<open>src k\<close>,
  counted from \<open>n\<close>; and the three lists of the items that have each status, in order.
\<close>

definition hydrated_items :: "(nat \<Rightarrow> real) \<Rightarrow> nat \<Rightarrow> UserMedia list \<Rightarrow> MediaItem list" where
  "hydrated_items src n rows = map (\<lambda>(k, row). supabaseToMediaItem (src k) row) (enumerate n rows)"

definition status_partition :: "MediaItem list \<Rightarrow> UserMediaStore" where
  "status_partition items =
     \<lparr> want_to_watch = filter (\<lambda>i. MediaItem.status i = Want_to_watch) items,
       watching = filter (\<lambda>i. MediaItem.status i = Watching) items,
       completed = filter (\<lambda>i. MediaItem.status i = Completed) items \<rparr>"

text \<open>A store with the locally generated \<open>id\<close> of every item blanked.\<close>

definition without_ids :: "UserMediaStore \<Rightarrow> UserMediaStore" where
  "without_ids st =
     \<lparr> want_to_watch = map (\<lambda>i. i\<lparr> id_local := 0 \<rparr>) (want_to_watch st),
       watching = map (\<lambda>i. i\<lparr> id_local := 0 \<rparr>) (watching st),
       completed = map (\<lambda>i. i\<lparr> id_local := 0 \<rparr>) (completed st) \<rparr>"

definition append_store :: "UserMediaStore \<Rightarrow> UserMediaStore \<Rightarrow> UserMediaStore" where
  "append_store a b =
     \<lparr> want_to_watch = want_to_watch a @ want_to_watch b,
       watching = watching a @ watching b,
       completed = completed a @ completed b \<rparr>"

subsection \<open>The items a migration gets accepted\<close>

text \<open>
  Of the items sent one per service call, the first as call number \<open>n\<close>, those whose
  call is not rejected; none when the service sees no signed-in user.
\<close>

definition accepted :: "bool \<Rightarrow> (nat \<Rightarrow> bool) \<Rightarrow> nat \<Rightarrow> 'a list \<Rightarrow> 'a list" where
  "accepted signed rejects n items =
     (if signed then map snd (filter (\<lambda>(k, i). \<not> rejects k) (enumerate n items)) else [])"

definition service_session :: "world \<Rightarrow> bool" where
  "service_session w = (auth_user w \<noteq> None)"

definition accepted_items :: "world \<Rightarrow> MediaItem list \<Rightarrow> MediaItem list" where
  "accepted_items w items = accepted (service_session w) (refused w) (length (requests w)) items"

text \<open>
  The rows the service makes of those items: the row of the item sent as call number
  \<open>k\<close> carries the identifier and time stamp of that call.
\<close>

definition rows_from :: "world \<Rightarrow> nat \<Rightarrow> MediaItem list \<Rightarrow> UserMedia list" where
  "rows_from w n items =
     (case auth_user w of
        None \<Rightarrow> []
      | Some u \<Rightarrow>
          map (\<lambda>(k, i). new_row w k u (mediaItemToSupabase i))
            (filter (\<lambda>(k, i). \<not> refused w k) (enumerate n items)))"

definition accepted_rows :: "world \<Rightarrow> MediaItem list \<Rightarrow> UserMedia list" where
  "accepted_rows w items = rows_from w (length (requests w)) items"

section \<open>Properties of the initialization gate\<close>

lemma init_run_snoc: "init_run (calls @ [c]) a = init_step c (init_run calls a)"
  by (simp add: init_run_def)

lemma fires_once_snoc:
  "fires_once (ns @ [x]) =
     (fires_once ns \<and> (ns = [] \<or> \<not> (appInitialized (last ns) \<and> appInitialized x)))"
  by (induction ns rule: fires_once.induct) auto

lemma gate_inv_initial: "gate_inv initial_app_store"
  by (simp add: gate_inv_def initial_app_store_def initial_state_def)

lemma gate_inv_markAuthResolved: "gate_inv a \<Longrightarrow> gate_inv (markAuthResolved a)"
  by (auto simp: gate_inv_def markAuthResolved_def checkAndMarkAppInitialized_def
      notifyListeners_def console_log_def fires_once_snoc)

lemma gate_inv_markDataHydrated: "gate_inv a \<Longrightarrow> gate_inv (markDataHydrated a)"
  by (auto simp: gate_inv_def markDataHydrated_def checkAndMarkAppInitialized_def
      notifyListeners_def console_log_def fires_once_snoc)

lemma gate_inv_resetInitialization: "gate_inv a \<Longrightarrow> gate_inv (resetInitialization a)"
  by (auto simp: gate_inv_def resetInitialization_def notifyListeners_def console_log_def
      fires_once_snoc)

lemma gate_inv_step: "gate_inv a \<Longrightarrow> gate_inv (init_step c a)"
  by (cases c)
    (simp_all add: gate_inv_markAuthResolved gate_inv_markDataHydrated
      gate_inv_resetInitialization)

lemma gate_inv_run: "gate_inv (init_run calls initial_app_store)"
  by (induction calls rule: rev_induct)
    (simp_all add: init_run_def gate_inv_initial gate_inv_step)

lemma mark_keeps_flags:
  "c \<noteq> ResetInitialization \<Longrightarrow>
     (authResolved (state a) \<longrightarrow> authResolved (state (init_step c a)))
   \<and> (dataHydrated (state a) \<longrightarrow> dataHydrated (state (init_step c a)))
   \<and> (appInitialized (state a) \<longrightarrow> appInitialized (state (init_step c a)))"
  by (cases c)
    (auto simp: markAuthResolved_def markDataHydrated_def checkAndMarkAppInitialized_def
      notifyListeners_def console_log_def)

lemma markAuthResolved_again:
  "gate_inv a \<Longrightarrow> authResolved (state a) \<Longrightarrow>
     state (markAuthResolved a) = state a \<and> notified (markAuthResolved a) = notified a"
  by (auto simp: gate_inv_def markAuthResolved_def checkAndMarkAppInitialized_def
      notifyListeners_def console_log_def)

lemma markDataHydrated_again:
  "gate_inv a \<Longrightarrow> dataHydrated (state a) \<Longrightarrow>
     state (markDataHydrated a) = state a \<and> notified (markDataHydrated a) = notified a"
  by (auto simp: gate_inv_def markDataHydrated_def checkAndMarkAppInitialized_def
      notifyListeners_def console_log_def)

text \<open>
  Claim C8. After any sequence of \<open>markAuthResolved\<close>, \<open>markDataHydrated\<close> and
  \<open>resetInitialization\<close> calls from the initial state: \<open>appInitialized\<close> is true exactly
  when \<open>authResolved\<close> and \<open>dataHydrated\<close> both are; a call other than the reset never
  turns a flag that is true back to false; marking a flag that is already true changes
  neither the state nor the broadcast history (it only prints its console line); and no
  two "initialized" notifications occur without a reset between them.
\<close>

theorem initialization_gate:
  "(appInitialized (state (init_run calls initial_app_store))
      = (authResolved (state (init_run calls initial_app_store))
         \<and> dataHydrated (state (init_run calls initial_app_store))))
   \<and> (\<forall>c. c \<noteq> ResetInitialization \<longrightarrow>
         (authResolved (state (init_run calls initial_app_store))
            \<longrightarrow> authResolved (state (init_step c (init_run calls initial_app_store))))
       \<and> (dataHydrated (state (init_run calls initial_app_store))
            \<longrightarrow> dataHydrated (state (init_step c (init_run calls initial_app_store))))
       \<and> (appInitialized (state (init_run calls initial_app_store))
            \<longrightarrow> appInitialized (state (init_step c (init_run calls initial_app_store)))))
   \<and> (authResolved (state (init_run calls initial_app_store)) \<longrightarrow>
         state (markAuthResolved (init_run calls initial_app_store))
           = state (init_run calls initial_app_store)
       \<and> notified (markAuthResolved (init_run calls initial_app_store))
           = notified (init_run calls initial_app_store))
   \<and> (dataHydrated (state (init_run calls initial_app_store)) \<longrightarrow>
         state (markDataHydrated (init_run calls initial_app_store))
           = state (init_run calls initial_app_store)
       \<and> notified (markDataHydrated (init_run calls initial_app_store))
           = notified (init_run calls initial_app_store))
   \<and> fires_once (notified (init_run calls initial_app_store))"
proof -
  let ?a = "init_run calls initial_app_store"
  have inv: "gate_inv ?a" by (rule gate_inv_run)
  have flags: "appInitialized (state ?a) = (authResolved (state ?a) \<and> dataHydrated (state ?a))"
    using inv by (simp add: gate_inv_def)
  have once: "fires_once (notified ?a)"
    using inv by (simp add: gate_inv_def)
  show ?thesis
    using flags once mark_keeps_flags [of _ ?a] markAuthResolved_again [OF inv]
      markDataHydrated_again [OF inv]
    by blast
qed

theorem initialization_gate_witness:
  "authResolved (state (init_run [MarkAuthResolved, MarkDataHydrated] initial_app_store))
   \<and> dataHydrated (state (init_run [MarkAuthResolved, MarkDataHydrated] initial_app_store))
   \<and> appInitialized (state (init_run [MarkAuthResolved, MarkDataHydrated] initial_app_store))
   \<and> MarkDataHydrated \<noteq> ResetInitialization
   \<and> appInitialized (state (init_step MarkDataHydrated
         (init_run [MarkAuthResolved, MarkDataHydrated] initial_app_store)))
   \<and> notified (markAuthResolved (init_run [MarkAuthResolved, MarkDataHydrated] initial_app_store))
       = notified (init_run [MarkAuthResolved, MarkDataHydrated] initial_app_store)
   \<and> length (notified (init_run [MarkAuthResolved, MarkDataHydrated] initial_app_store)) = 1
   \<and> fires_once (notified (init_run [MarkAuthResolved, MarkDataHydrated] initial_app_store))"
  using initialization_gate [of "[MarkAuthResolved, MarkDataHydrated]"]
  by (simp add: init_run_def initial_app_store_def initial_state_def markAuthResolved_def
      markDataHydrated_def checkAndMarkAppInitialized_def notifyListeners_def console_log_def)

section \<open>Properties of the media store\<close>

subsection \<open>Evaluation and framing lemmas\<close>

lemmas run_defs =
  fresh_page_def signed_in_def sample_item_def isLoggedIn_def console_warn_def console_error_def
  issue_def getAllUserMedia_def new_row_def addUserMedia_def matches_row_def updateUserMedia_def
  updateMediaStatus_def updateTVProgress_def removeUserMedia_def localStorage_getItem_def
  JSON_stringify_def read_stored_def getLocalStore_def saveLocalStore_def supabaseToMediaItem_def
  mediaItemToSupabase_def loadFromSupabase_def addToList_local_def addToList_def without_key_def
  removeFromList_local_def removeFromList_def updateStatus_local_def updateStatus_def
  updateProgress_local_def updateProgress_def cached_def getByStatus_def getAllItems_def
  isInList_def migrateGuestDataToSupabase_def push_def empty_collection_def all_items_def
  has_key_def item_key_def row_key_def Let_def

lemmas more_defs =
  sample_row_def storage_works_def perform_all_def added_not_removed_def keys_of_def
  hydrated_items_def status_partition_def without_ids_def accepted_def service_session_def
  accepted_items_def

lemma getLocalStore_eq: "getLocalStore w = (Inr (local_ref w), after_read w)"
  by (simp add: getLocalStore_def local_ref_def after_read_def split: sum.splits)

lemma after_read_cases: "after_read w = w \<or> after_read w = console_error ''Error reading from localStorage:'' w"
  by (simp add: after_read_def getLocalStore_def  split: sum.splits)

lemma after_read_fields [simp]:
  "window_defined (after_read w) = window_defined w"
  "getItem_throws (after_read w) = getItem_throws w"
  "setItem_throws (after_read w) = setItem_throws w"
  "localStorage (after_read w) = localStorage w"
  "dispatched (after_read w) = dispatched w"
  "emptyStore (after_read w) = emptyStore w"
  "currentUser (after_read w) = currentUser w"
  "auth_user (after_read w) = auth_user w"
  "user_media (after_read w) = user_media w"
  "refused (after_read w) = refused w"
  "requests (after_read w) = requests w"
  "id_source (after_read w) = id_source w"
  "ids_drawn (after_read w) = ids_drawn w"
  using after_read_cases [of w] by (auto simp: console_error_def)

lemma deref_after_read: "deref (local_ref w) (after_read w) = cached w"
  by (simp add: cached_def getLocalStore_eq)

lemma cached_cong:
  "window_defined w' = window_defined w \<Longrightarrow> getItem_throws w' = getItem_throws w \<Longrightarrow>
   localStorage w' = localStorage w \<Longrightarrow> emptyStore w' = emptyStore w \<Longrightarrow> cached w' = cached w"
  by (simp add: cached_def getLocalStore_def read_stored_def localStorage_getItem_def
      console_error_def split: sum.splits option.splits stored_text.splits)

subsection \<open>updateProgress on a movie\<close>

text \<open>
  Claim C9. \<open>updateProgress\<close> called with media type \<open>movie\<close> returns normally after
  printing the warning and does nothing else: no service call is made, whether or not a
  user is signed in, the remote rows, the stored entry, the \<open>emptyStore\<close> object and the
  number of dispatched events are unchanged, and so is the cache, so the progress fields
  of every cached item are what they were.
\<close>

theorem updateProgress_movie_noop:
  "updateProgress t Movie cs ce w
      = (Inr (), console_warn ''Progress tracking is only for TV series'' w)
   \<and> requests (snd (updateProgress t Movie cs ce w)) = requests w
   \<and> user_media (snd (updateProgress t Movie cs ce w)) = user_media w
   \<and> localStorage (snd (updateProgress t Movie cs ce w)) = localStorage w
   \<and> emptyStore (snd (updateProgress t Movie cs ce w)) = emptyStore w
   \<and> dispatched (snd (updateProgress t Movie cs ce w)) = dispatched w
   \<and> cached (snd (updateProgress t Movie cs ce w)) = cached w"
proof -
  have eq: "updateProgress t Movie cs ce w
      = (Inr (), console_warn ''Progress tracking is only for TV series'' w)"
    by (simp add: updateProgress_def)
  have "cached (console_warn ''Progress tracking is only for TV series'' w) = cached w"
    by (rule cached_cong) (simp_all add: console_warn_def)
  then show ?thesis
    by (simp add: eq console_warn_def)
qed

subsection \<open>loadFromSupabase when the fetch fails\<close>

lemma getAll_fields:
  "localStorage (snd (getAllUserMedia w)) = localStorage w"
  "emptyStore (snd (getAllUserMedia w)) = emptyStore w"
  "dispatched (snd (getAllUserMedia w)) = dispatched w"
  "window_defined (snd (getAllUserMedia w)) = window_defined w"
  "getItem_throws (snd (getAllUserMedia w)) = getItem_throws w"
  by (simp_all add: getAllUserMedia_def issue_def console_error_def Let_def)

text \<open>
  Claim C10. If a user is signed in and \<open>getAllUserMedia\<close> fails, \<open>loadFromSupabase\<close>
  returns normally: the error is caught and logged, the console gaining exactly the
  service's error line and \<open>loadFromSupabase\<close>'s own; and the stored entry, the
  \<open>emptyStore\<close> object, the cache read through \<open>getLocalStore\<close> and the number of
  dispatched \<open>mediaStoreUpdate\<close> events are the same as before the call.
\<close>

lemma getAll_failure:
  assumes "fst (getAllUserMedia w) = Inl e"
  shows "console (snd (getAllUserMedia w)) = console w @ [Err ''Error fetching user media:'']"
  using assms
  by (auto simp: getAllUserMedia_def issue_def console_error_def Let_def split: if_splits)

theorem loadFromSupabase_fetch_failure:
  assumes "isLoggedIn w" and "fst (getAllUserMedia w) = Inl e"
  shows "fst (loadFromSupabase w) = Inr ()
    \<and> console (snd (loadFromSupabase w))
        = console w @ [Err ''Error fetching user media:'', Err ''Error loading from Supabase:'']
    \<and> localStorage (snd (loadFromSupabase w)) = localStorage w
    \<and> emptyStore (snd (loadFromSupabase w)) = emptyStore w
    \<and> dispatched (snd (loadFromSupabase w)) = dispatched w
    \<and> cached (snd (loadFromSupabase w)) = cached w"
proof -
  obtain w1 where g: "getAllUserMedia w = (Inl e, w1)"
    using assms(2) by (cases "getAllUserMedia w") simp
  have w1: "w1 = snd (getAllUserMedia w)" by (simp add: g)
  have l: "loadFromSupabase w = (Inr (), console_error ''Error loading from Supabase:'' w1)"
    using assms(1) by (simp add: loadFromSupabase_def g)
  have c: "cached (console_error ''Error loading from Supabase:'' w1) = cached w"
    by (rule cached_cong) (simp_all add: console_error_def w1 getAll_fields)
  have k: "console w1 = console w @ [Err ''Error fetching user media:'']"
    unfolding w1 by (rule getAll_failure [OF assms(2)])
  show ?thesis
    by (simp add: l c) (simp add: console_error_def k, simp add: w1 getAll_fields)
qed

theorem loadFromSupabase_fetch_failure_witness:
  "isLoggedIn ((signed_in fresh_page)\<lparr> refused := (\<lambda>n. True) \<rparr>)
   \<and> fst (getAllUserMedia ((signed_in fresh_page)\<lparr> refused := (\<lambda>n. True) \<rparr>))
       = Inl SupabaseError
   \<and> fst (loadFromSupabase ((signed_in fresh_page)\<lparr> refused := (\<lambda>n. True) \<rparr>)) = Inr ()
   \<and> console (snd (loadFromSupabase ((signed_in fresh_page)\<lparr> refused := (\<lambda>n. True) \<rparr>)))
       = [Err ''Error fetching user media:'', Err ''Error loading from Supabase:'']
   \<and> localStorage (snd (loadFromSupabase ((signed_in fresh_page)\<lparr> refused := (\<lambda>n. True) \<rparr>)))
       = None
   \<and> dispatched (snd (loadFromSupabase ((signed_in fresh_page)\<lparr> refused := (\<lambda>n. True) \<rparr>)))
       = 0"
proof -
  let ?w = "(signed_in fresh_page)\<lparr> refused := (\<lambda>n. True) \<rparr>"
  have h1: "isLoggedIn ?w" by (simp add: run_defs)
  have h2: "fst (getAllUserMedia ?w) = Inl SupabaseError" by (simp add: run_defs)
  have d: "dispatched ?w = 0" "localStorage ?w = None" "console ?w = []"
    by (simp_all add: run_defs)
  show ?thesis using h1 h2 d loadFromSupabase_fetch_failure [OF h1 h2] by simp
qed

subsection \<open>addToList when the remote insert fails\<close>

lemma addUserMedia_fields:
  "localStorage (snd (addUserMedia d w)) = localStorage w"
  "emptyStore (snd (addUserMedia d w)) = emptyStore w"
  "dispatched (snd (addUserMedia d w)) = dispatched w"
  "window_defined (snd (addUserMedia d w)) = window_defined w"
  "getItem_throws (snd (addUserMedia d w)) = getItem_throws w"
  "setItem_throws (snd (addUserMedia d w)) = setItem_throws w"
  "currentUser (snd (addUserMedia d w)) = currentUser w"
  by (simp_all add: addUserMedia_def issue_def console_error_def Let_def split: option.splits)

text \<open>
  Claim C2. If a user is signed in and the remote insert \<open>addUserMedia\<close> fails with an
  error, \<open>addToList\<close> fails with that same error, and the stored entry, the \<open>emptyStore\<close>
  object, the cache and the number of dispatched events are unchanged; in particular the
  item's key is in the cache afterwards only if it was there before.
\<close>

theorem addToList_remote_failure:
  assumes "isLoggedIn w" and "fst (addUserMedia (mediaItemToSupabase item) w) = Inl e"
  shows "fst (addToList item w) = Inl e
    \<and> localStorage (snd (addToList item w)) = localStorage w
    \<and> emptyStore (snd (addToList item w)) = emptyStore w
    \<and> dispatched (snd (addToList item w)) = dispatched w
    \<and> cached (snd (addToList item w)) = cached w
    \<and> isInList (tmdbId item) (mediaType item) (snd (addToList item w))
        = isInList (tmdbId item) (mediaType item) w"
proof -
  obtain w1 where g: "addUserMedia (mediaItemToSupabase item) w = (Inl e, w1)"
    using assms(2) by (cases "addUserMedia (mediaItemToSupabase item) w") simp
  have w1: "w1 = snd (addUserMedia (mediaItemToSupabase item) w)" by (simp add: g)
  have l: "addToList item w = (Inl e, console_error ''Error adding to Supabase:'' w1)"
    using assms(1) by (simp add: addToList_def g)
  have c: "cached (console_error ''Error adding to Supabase:'' w1) = cached w"
    by (rule cached_cong) (simp_all add: console_error_def w1 addUserMedia_fields)
  show ?thesis
    by (simp add: l c isInList_def) (simp add: console_error_def w1 addUserMedia_fields)
qed

theorem addToList_remote_failure_witness:
  "isLoggedIn ((signed_in fresh_page)\<lparr> refused := (\<lambda>n. True) \<rparr>)
   \<and> fst (addUserMedia (mediaItemToSupabase (sample_item 550 Movie Want_to_watch))
          ((signed_in fresh_page)\<lparr> refused := (\<lambda>n. True) \<rparr>)) = Inl SupabaseError
   \<and> fst (addToList (sample_item 550 Movie Want_to_watch)
          ((signed_in fresh_page)\<lparr> refused := (\<lambda>n. True) \<rparr>)) = Inl SupabaseError
   \<and> cached (snd (addToList (sample_item 550 Movie Want_to_watch)
          ((signed_in fresh_page)\<lparr> refused := (\<lambda>n. True) \<rparr>))) = empty_collection
   \<and> dispatched (snd (addToList (sample_item 550 Movie Want_to_watch)
          ((signed_in fresh_page)\<lparr> refused := (\<lambda>n. True) \<rparr>))) = 0"
proof -
  let ?w = "(signed_in fresh_page)\<lparr> refused := (\<lambda>n. True) \<rparr>"
  let ?x = "sample_item 550 Movie Want_to_watch"
  have h1: "isLoggedIn ?w" by (simp add: run_defs)
  have h2: "fst (addUserMedia (mediaItemToSupabase ?x) ?w) = Inl SupabaseError"
    by (simp add: run_defs)
  have d: "dispatched ?w = 0" "cached ?w = empty_collection" by (simp_all add: run_defs)
  show ?thesis using h1 h2 d addToList_remote_failure [OF h1 h2] by simp
qed

subsection \<open>addToList of a key that is already cached\<close>

lemma addToList_local_present:
  assumes "isInList (tmdbId item) (mediaType item) w"
  shows "addToList_local item w = (Inr (), console_warn ''Item already in list'' (after_read w))"
  using assms by (simp add: addToList_local_def getLocalStore_eq deref_after_read isInList_def)

lemma local_noop_fields:
  "localStorage (console_warn msg (after_read w)) = localStorage w"
  "emptyStore (console_warn msg (after_read w)) = emptyStore w"
  "dispatched (console_warn msg (after_read w)) = dispatched w"
  "requests (console_warn msg (after_read w)) = requests w"
  "user_media (console_warn msg (after_read w)) = user_media w"
  "last (console (console_warn msg (after_read w))) = Warn msg"
  "cached (console_warn msg (after_read w)) = cached w"
proof -
  show "cached (console_warn msg (after_read w)) = cached w"
    by (rule cached_cong) (simp_all add: console_warn_def)
qed (simp_all add: console_warn_def)

lemma addUserMedia_result:
  "fst (addUserMedia d w) =
     (case auth_user w of
        None \<Rightarrow> Inl UserNotAuthenticated
      | Some u \<Rightarrow> if refused w (length (requests w)) then Inl SupabaseError
                  else Inr (new_row w (length (requests w)) u d))"
  and addUserMedia_rows:
  "user_media (snd (addUserMedia d w)) =
     (case auth_user w of
        None \<Rightarrow> user_media w
      | Some u \<Rightarrow> if refused w (length (requests w)) then user_media w
                  else new_row w (length (requests w)) u d # user_media w)"
  and addUserMedia_frame:
  "auth_user (snd (addUserMedia d w)) = auth_user w"
  "refused (snd (addUserMedia d w)) = refused w"
  "id_source (snd (addUserMedia d w)) = id_source w"
  "ids_drawn (snd (addUserMedia d w)) = ids_drawn w"
  by (simp_all add: addUserMedia_def issue_def console_error_def Let_def split: option.splits)

lemma addUserMedia_accepts:
  assumes "addUserMedia d w = (Inr row, w1)"
  shows "user_media w1 = row # user_media w"
  using assms
  by (auto simp: addUserMedia_def issue_def console_error_def Let_def
      split: option.splits if_splits)

lemma addUserMedia_requests:
  "requests (snd (addUserMedia d w)) = requests w @ [AddUserMedia d]"
  by (simp add: addUserMedia_def issue_def console_error_def Let_def split: option.splits)

lemma cached_addUserMedia: "cached (snd (addUserMedia d w)) = cached w"
  by (rule cached_cong) (simp_all add: addUserMedia_fields)

text \<open>
  Claim C5 as stated does not hold for a signed-in user: the remote insert comes before
  the duplicate check, so when the service rejects the insert the error reaches the
  caller. Here the item with key (550, movie) is cached, a user is signed in and the
  service rejects every call.
\<close>

theorem signed_in_duplicate_add_fails:
  "isInList 550 Movie
     ((signed_in fresh_page)
        \<lparr> refused := (\<lambda>n. True),
          localStorage := Some (Encoded (push Want_to_watch
            (sample_item 550 Movie Want_to_watch) empty_collection)) \<rparr>)
   \<and> fst (addToList (sample_item 550 Movie Want_to_watch)
       ((signed_in fresh_page)
          \<lparr> refused := (\<lambda>n. True),
            localStorage := Some (Encoded (push Want_to_watch
              (sample_item 550 Movie Want_to_watch) empty_collection)) \<rparr>))
     = Inl SupabaseError"
  by (simp add: run_defs)

text \<open>
  Claim C5, amended. When the key of the item is already in the cache, \<open>addToList\<close>
  leaves the cache, the stored entry, the \<open>emptyStore\<close> object and the number of
  dispatched events unchanged. For a guest it makes no service call, returns normally and
  prints the warning. For a signed-in user it first calls \<open>addUserMedia\<close>: if that fails,
  the failure is propagated to the caller; if it succeeds, the remote rows have gained the
  inserted row and \<open>addToList\<close> returns normally and prints the warning.
\<close>

theorem addToList_duplicate:
  assumes "isInList (tmdbId item) (mediaType item) w"
  shows "cached (snd (addToList item w)) = cached w
    \<and> localStorage (snd (addToList item w)) = localStorage w
    \<and> emptyStore (snd (addToList item w)) = emptyStore w
    \<and> dispatched (snd (addToList item w)) = dispatched w
    \<and> (\<not> isLoggedIn w \<longrightarrow>
          fst (addToList item w) = Inr ()
        \<and> last (console (snd (addToList item w))) = Warn ''Item already in list''
        \<and> requests (snd (addToList item w)) = requests w)
    \<and> (isLoggedIn w \<longrightarrow>
          requests (snd (addToList item w)) = requests w @ [AddUserMedia (mediaItemToSupabase item)]
        \<and> (case fst (addUserMedia (mediaItemToSupabase item) w) of
              Inl e \<Rightarrow> fst (addToList item w) = Inl e
            | Inr row \<Rightarrow>
                fst (addToList item w) = Inr ()
              \<and> last (console (snd (addToList item w))) = Warn ''Item already in list''
              \<and> user_media (snd (addToList item w)) = row # user_media w))"
proof (cases "isLoggedIn w")
  case False
  then have "addToList item w = (Inr (), console_warn ''Item already in list'' (after_read w))"
    by (simp add: addToList_def addToList_local_present [OF assms])
  then show ?thesis using False by (simp add: local_noop_fields)
next
  case True
  obtain res w1 where g: "addUserMedia (mediaItemToSupabase item) w = (res, w1)"
    by (cases "addUserMedia (mediaItemToSupabase item) w")
  have w1: "w1 = snd (addUserMedia (mediaItemToSupabase item) w)" by (simp add: g)
  show ?thesis
  proof (cases res)
    case (Inl e)
    then have l: "addToList item w = (Inl e, console_error ''Error adding to Supabase:'' w1)"
      using True by (simp add: addToList_def g)
    have c: "cached (console_error ''Error adding to Supabase:'' w1) = cached w"
      by (rule cached_cong) (simp_all add: console_error_def w1 addUserMedia_fields)
    show ?thesis using True Inl
      by (simp add: l c g) (simp add: console_error_def w1 addUserMedia_fields addUserMedia_requests)
  next
    case (Inr row)
    have "isInList (tmdbId item) (mediaType item) w1"
      using assms by (simp add: isInList_def w1 cached_addUserMedia)
    then have l: "addToList item w = (Inr (), console_warn ''Item already in list'' (after_read w1))"
      using True Inr by (simp add: addToList_def g addToList_local_present)
    have rows: "user_media w1 = row # user_media w"
      using g unfolding Inr by (rule addUserMedia_accepts)
    show ?thesis using True Inr
      by (simp add: l g local_noop_fields rows)
        (simp add: w1 addUserMedia_fields addUserMedia_requests cached_addUserMedia)
  qed
qed

theorem addToList_duplicate_witness:
  "isInList 550 Movie
     (fresh_page\<lparr> localStorage := Some (Encoded (push Want_to_watch
        (sample_item 550 Movie Want_to_watch) empty_collection)) \<rparr>)
   \<and> \<not> isLoggedIn
     (fresh_page\<lparr> localStorage := Some (Encoded (push Want_to_watch
        (sample_item 550 Movie Want_to_watch) empty_collection)) \<rparr>)
   \<and> fst (addToList (sample_item 550 Movie Watching)
       (fresh_page\<lparr> localStorage := Some (Encoded (push Want_to_watch
          (sample_item 550 Movie Want_to_watch) empty_collection)) \<rparr>)) = Inr ()
   \<and> getAllItems (snd (addToList (sample_item 550 Movie Watching)
       (fresh_page\<lparr> localStorage := Some (Encoded (push Want_to_watch
          (sample_item 550 Movie Want_to_watch) empty_collection)) \<rparr>)))
     = [sample_item 550 Movie Want_to_watch]
   \<and> isLoggedIn
     (signed_in (fresh_page\<lparr> localStorage := Some (Encoded (push Want_to_watch
        (sample_item 550 Movie Want_to_watch) empty_collection)) \<rparr>))
   \<and> fst (addToList (sample_item 550 Movie Watching)
       (signed_in (fresh_page\<lparr> localStorage := Some (Encoded (push Want_to_watch
          (sample_item 550 Movie Want_to_watch) empty_collection)) \<rparr>))) = Inr ()
   \<and> getAllItems (snd (addToList (sample_item 550 Movie Watching)
       (signed_in (fresh_page\<lparr> localStorage := Some (Encoded (push Want_to_watch
          (sample_item 550 Movie Want_to_watch) empty_collection)) \<rparr>))))
     = [sample_item 550 Movie Want_to_watch]"
proof -
  let ?g = "fresh_page\<lparr> localStorage := Some (Encoded (push Want_to_watch
        (sample_item 550 Movie Want_to_watch) empty_collection)) \<rparr>"
  let ?x = "sample_item 550 Movie Watching"
  have key: "tmdbId ?x = 550" "mediaType ?x = Movie" by (simp_all add: sample_item_def)
  have g1: "isInList (tmdbId ?x) (mediaType ?x) ?g" by (simp add: run_defs)
  have g2: "\<not> isLoggedIn ?g" by (simp add: run_defs)
  have g3: "cached ?g = push Want_to_watch (sample_item 550 Movie Want_to_watch) empty_collection"
    by (simp add: run_defs)
  have s1: "isInList (tmdbId ?x) (mediaType ?x) (signed_in ?g)" by (simp add: run_defs)
  have s2: "isLoggedIn (signed_in ?g)" by (simp add: run_defs)
  have s3: "cached (signed_in ?g)
      = push Want_to_watch (sample_item 550 Movie Want_to_watch) empty_collection"
    by (simp add: run_defs)
  have s4: "fst (addUserMedia (mediaItemToSupabase ?x) (signed_in ?g))
      = Inr (new_row (signed_in ?g) 0 ''user'' (mediaItemToSupabase ?x))"
    by (simp add: run_defs)
  have a: "all_items (push Want_to_watch (sample_item 550 Movie Want_to_watch) empty_collection)
      = [sample_item 550 Movie Want_to_watch]"
    by (simp add: push_def empty_collection_def all_items_def)
  show ?thesis
    using g2 s2 s4 addToList_duplicate [OF g1] addToList_duplicate [OF s1]
    by (simp add: key g3 s3 a getAllItems_def g1 [unfolded key] )
qed

subsection \<open>updateStatus of a key that is not cached\<close>

lemma find_and_remove_absent:
  assumes "\<not> list_ex (has_key t m) (all_items st)"
  shows "find_and_remove [Want_to_watch, Watching, Completed] t m st = (None, st)"
proof -
  have "find (has_key t m) (want_to_watch st) = None"
    and "find (has_key t m) (watching st) = None"
    and "find (has_key t m) (completed st) = None"
    using assms by (auto simp: find_None_iff list_ex_iff all_items_def)
  then show ?thesis by simp
qed

lemma updateStatus_local_absent:
  assumes "\<not> isInList t m w"
  shows "updateStatus_local t m newStatus w
    = (Inr (), console_warn ''Item not found in any list'' (after_read w))"
proof -
  have "find_and_remove [Want_to_watch, Watching, Completed] t m (cached w) = (None, cached w)"
    using assms unfolding isInList_def by (rule find_and_remove_absent)
  then show ?thesis
    by (simp add: updateStatus_local_def getLocalStore_eq deref_after_read
        del: find_and_remove.simps)
qed

lemma updateUserMedia_fields:
  "localStorage (snd (updateUserMedia t m u w)) = localStorage w"
  "emptyStore (snd (updateUserMedia t m u w)) = emptyStore w"
  "dispatched (snd (updateUserMedia t m u w)) = dispatched w"
  "window_defined (snd (updateUserMedia t m u w)) = window_defined w"
  "getItem_throws (snd (updateUserMedia t m u w)) = getItem_throws w"
  "setItem_throws (snd (updateUserMedia t m u w)) = setItem_throws w"
  "currentUser (snd (updateUserMedia t m u w)) = currentUser w"
  "requests (snd (updateUserMedia t m u w)) = requests w @ [UpdateUserMedia t m u]"
  by (simp_all add: updateUserMedia_def issue_def console_error_def Let_def split: list.splits)

lemma updateUserMedia_failure:
  assumes "fst (updateUserMedia t m u w) = Inl e"
  shows "console (snd (updateUserMedia t m u w)) = console w @ [Err ''Error updating user media:'']"
  using assms
  by (auto simp: updateUserMedia_def issue_def console_error_def Let_def
      split: if_splits list.splits)

lemma cached_updateUserMedia: "cached (snd (updateUserMedia t m u w)) = cached w"
  by (rule cached_cong) (simp_all add: updateUserMedia_fields)

text \<open>
  Claim C6 as stated does not hold for a signed-in user: the remote update comes before
  the search of the cache, so when the remote update fails the call fails with the
  service's error and the "not found" warning is never printed. Here nothing is cached
  and a user is signed in; in the first case the service works and has no row with the
  key, so that \<open>.single()\<close> reports an error, in the second it rejects every call.
\<close>

theorem signed_in_absent_update_fails:
  "\<not> isInList 550 Movie (signed_in fresh_page)
   \<and> fst (updateStatus 550 Movie Watching (signed_in fresh_page)) = Inl SupabaseError
   \<and> Warn ''Item not found in any list''
     \<notin> set (console (snd (updateStatus 550 Movie Watching (signed_in fresh_page))))
   \<and> \<not> isInList 550 Movie ((signed_in fresh_page)\<lparr> refused := (\<lambda>n. True) \<rparr>)
   \<and> fst (updateStatus 550 Movie Watching ((signed_in fresh_page)\<lparr> refused := (\<lambda>n. True) \<rparr>))
     = Inl SupabaseError
   \<and> Warn ''Item not found in any list''
     \<notin> set (console (snd (updateStatus 550 Movie Watching
           ((signed_in fresh_page)\<lparr> refused := (\<lambda>n. True) \<rparr>))))"
  by (simp add: run_defs)

text \<open>
  Claim C6, amended. When the key is in no list of the cache, \<open>updateStatus\<close> leaves the
  cache, the stored entry, the \<open>emptyStore\<close> object and the number of dispatched events
  unchanged. For a guest it makes no service call, returns normally and prints the
  "not found" warning. For a signed-in user it first calls \<open>updateMediaStatus\<close>: if that
  fails, the failure is propagated to the caller and the console gains exactly the two
  error lines of the failed update, so "not found" is not reported; if it succeeds,
  \<open>updateStatus\<close> returns normally and prints the "not found" warning.
\<close>

theorem updateStatus_absent:
  assumes "\<not> isInList t m w"
  shows "cached (snd (updateStatus t m newStatus w)) = cached w
    \<and> localStorage (snd (updateStatus t m newStatus w)) = localStorage w
    \<and> emptyStore (snd (updateStatus t m newStatus w)) = emptyStore w
    \<and> dispatched (snd (updateStatus t m newStatus w)) = dispatched w
    \<and> (\<not> isLoggedIn w \<longrightarrow>
          fst (updateStatus t m newStatus w) = Inr ()
        \<and> last (console (snd (updateStatus t m newStatus w))) = Warn ''Item not found in any list''
        \<and> requests (snd (updateStatus t m newStatus w)) = requests w)
    \<and> (isLoggedIn w \<longrightarrow>
          requests (snd (updateStatus t m newStatus w))
            = requests w @ [UpdateUserMedia t m (Status_update newStatus)]
        \<and> (case fst (updateMediaStatus t m newStatus w) of
              Inl e \<Rightarrow>
                fst (updateStatus t m newStatus w) = Inl e
              \<and> console (snd (updateStatus t m newStatus w))
                  = console w @ [Err ''Error updating user media:'',
                                 Err ''Error updating status in Supabase:'']
            | Inr row \<Rightarrow>
                fst (updateStatus t m newStatus w) = Inr ()
              \<and> last (console (snd (updateStatus t m newStatus w)))
                  = Warn ''Item not found in any list''))"
proof (cases "isLoggedIn w")
  case False
  then have "updateStatus t m newStatus w
      = (Inr (), console_warn ''Item not found in any list'' (after_read w))"
    by (simp add: updateStatus_def updateStatus_local_absent [OF assms])
  then show ?thesis using False by (simp add: local_noop_fields)
next
  case True
  obtain res w1 where g: "updateMediaStatus t m newStatus w = (res, w1)"
    by (cases "updateMediaStatus t m newStatus w")
  have w1: "w1 = snd (updateUserMedia t m (Status_update newStatus) w)"
    using g by (simp add: updateMediaStatus_def)
  show ?thesis
  proof (cases res)
    case (Inl e)
    then have l: "updateStatus t m newStatus w
        = (Inl e, console_error ''Error updating status in Supabase:'' w1)"
      using True by (simp add: updateStatus_def g)
    have c: "cached (console_error ''Error updating status in Supabase:'' w1) = cached w"
      by (rule cached_cong) (simp_all add: console_error_def w1 updateUserMedia_fields)
    have "fst (updateUserMedia t m (Status_update newStatus) w) = Inl e"
      using g Inl by (simp add: updateMediaStatus_def)
    then have k: "console w1 = console w @ [Err ''Error updating user media:'']"
      unfolding w1 by (rule updateUserMedia_failure)
    show ?thesis using True Inl
      by (simp add: l c g) (simp add: console_error_def k, simp add: w1 updateUserMedia_fields)
  next
    case (Inr row)
    have "\<not> isInList t m w1"
      using assms by (simp add: isInList_def w1 cached_updateUserMedia)
    then have l: "updateStatus t m newStatus w
        = (Inr (), console_warn ''Item not found in any list'' (after_read w1))"
      using True Inr by (simp add: updateStatus_def g updateStatus_local_absent)
    show ?thesis using True Inr
      by (simp add: l g local_noop_fields)
        (simp add: w1 updateUserMedia_fields cached_updateUserMedia)
  qed
qed

theorem updateStatus_absent_witness:
  "\<not> isInList 550 Movie fresh_page
   \<and> \<not> isLoggedIn fresh_page
   \<and> fst (updateStatus 550 Movie Watching fresh_page) = Inr ()
   \<and> last (console (snd (updateStatus 550 Movie Watching fresh_page)))
       = Warn ''Item not found in any list''
   \<and> cached (snd (updateStatus 550 Movie Watching fresh_page)) = empty_collection
   \<and> \<not> isInList 550 Movie ((signed_in fresh_page)\<lparr> refused := (\<lambda>n. True) \<rparr>)
   \<and> isLoggedIn ((signed_in fresh_page)\<lparr> refused := (\<lambda>n. True) \<rparr>)
   \<and> cached (snd (updateStatus 550 Movie Watching
        ((signed_in fresh_page)\<lparr> refused := (\<lambda>n. True) \<rparr>))) = empty_collection
   \<and> fst (updateStatus 550 Movie Watching
        ((signed_in fresh_page)\<lparr> refused := (\<lambda>n. True) \<rparr>)) = Inl SupabaseError
   \<and> console (snd (updateStatus 550 Movie Watching
        ((signed_in fresh_page)\<lparr> refused := (\<lambda>n. True) \<rparr>)))
       = [Err ''Error updating user media:'', Err ''Error updating status in Supabase:'']"
proof -
  let ?s = "(signed_in fresh_page)\<lparr> refused := (\<lambda>n. True) \<rparr>"
  have g1: "\<not> isInList 550 Movie fresh_page" by (simp add: run_defs)
  have g2: "\<not> isLoggedIn fresh_page" by (simp add: run_defs)
  have g3: "cached fresh_page = empty_collection" by (simp add: run_defs)
  have s1: "\<not> isInList 550 Movie ?s" by (simp add: run_defs)
  have s2: "isLoggedIn ?s" by (simp add: run_defs)
  have s3: "cached ?s = empty_collection" by (simp add: run_defs)
  have s4: "fst (updateMediaStatus 550 Movie Watching ?s) = Inl SupabaseError"
    "console ?s = []"
    by (simp_all add: run_defs)
  show ?thesis
    using g1 g2 s1 s2 s4 updateStatus_absent [OF g1, of Watching]
      updateStatus_absent [OF s1, of Watching]
    by (simp add: g3 s3)
qed

subsection \<open>getLocalStore\<close>

lemma getLocalStore_never_raises: "\<exists>r w1. getLocalStore w = (Inr r, w1)"
  by (simp add: getLocalStore_eq)

lemma getLocalStore_without_payload:
  assumes "localStorage w = None \<or> localStorage w = Some Malformed"
  shows "fst (getLocalStore w) = Inr EmptyStore_object" and "cached w = emptyStore w"
  using assms
  by (auto simp: cached_def getLocalStore_def read_stored_def localStorage_getItem_def
      console_error_def)

text \<open>
  Claim C7. \<open>getLocalStore\<close> never raises, and without a readable entry it returns the
  module's \<open>emptyStore\<close> object. That object is empty only until a caller changes the
  store it was handed: on a freshly loaded page with nothing stored, \<open>addToList\<close> pushes
  its item onto \<open>emptyStore\<close> itself. If the entry is then lost or unreadable, or the
  write failed in the first place, \<open>getLocalStore\<close> returns a store that holds the item,
  not three empty lists.
\<close>

theorem getLocalStore_after_first_add:
  "fst (getLocalStore ((snd (addToList (sample_item 550 Movie Want_to_watch) fresh_page))
         \<lparr> localStorage := Some Malformed \<rparr>)) = Inr EmptyStore_object
   \<and> cached ((snd (addToList (sample_item 550 Movie Want_to_watch) fresh_page))
         \<lparr> localStorage := Some Malformed \<rparr>)
       = \<lparr> want_to_watch = [sample_item 550 Movie Want_to_watch], watching = [],
           completed = [] \<rparr>
   \<and> fst (getLocalStore ((snd (addToList (sample_item 550 Movie Want_to_watch) fresh_page))
         \<lparr> localStorage := None \<rparr>)) = Inr EmptyStore_object
   \<and> cached ((snd (addToList (sample_item 550 Movie Want_to_watch) fresh_page))
         \<lparr> localStorage := None \<rparr>)
       = \<lparr> want_to_watch = [sample_item 550 Movie Want_to_watch], watching = [],
           completed = [] \<rparr>
   \<and> localStorage (snd (addToList (sample_item 550 Movie Want_to_watch)
         (fresh_page\<lparr> setItem_throws := True \<rparr>))) = None
   \<and> cached (snd (addToList (sample_item 550 Movie Want_to_watch)
         (fresh_page\<lparr> setItem_throws := True \<rparr>)))
       = \<lparr> want_to_watch = [sample_item 550 Movie Want_to_watch], watching = [],
           completed = [] \<rparr>"
  by (simp add: run_defs)

subsection \<open>loadFromSupabase when the fetch succeeds\<close>

lemma hydrated_items_Cons:
  "hydrated_items src n (row # rows) = supabaseToMediaItem (src n) row # hydrated_items src (Suc n) rows"
  by (simp add: hydrated_items_def)

lemma status_supabaseToMediaItem [simp]:
  "MediaItem.status (supabaseToMediaItem x row) = UserMediaInsert.status row"
  by (simp add: supabaseToMediaItem_def)

lemma push_append_store:
  "push (MediaItem.status i) i st = append_store st (status_partition [i])"
  by (cases "MediaItem.status i") (simp_all add: push_def append_store_def status_partition_def)

lemma append_store_assoc:
  "append_store (append_store a (status_partition xs)) (status_partition ys)
     = append_store a (status_partition (xs @ ys))"
  by (simp add: append_store_def status_partition_def)

lemma fill_store_eq:
  "fill_store rows st w =
     (append_store st (status_partition (hydrated_items (id_source w) (ids_drawn w) rows)),
      w\<lparr> ids_drawn := ids_drawn w + length rows \<rparr>)"
proof (induction rows arbitrary: st w)
  case Nil
  then show ?case
    by (simp add: hydrated_items_def append_store_def status_partition_def)
next
  case (Cons row rows)
  show ?case
    by (simp add: Let_def Cons.IH push_append_store append_store_assoc hydrated_items_Cons
        del: status_supabaseToMediaItem)
qed

lemma append_empty_collection: "append_store empty_collection st = st"
  by (simp add: append_store_def empty_collection_def)

lemma cached_saved:
  assumes "storage_works w"
  shows "cached (saveLocalStore st w) = st"
  using assms
  by (simp add: storage_works_def saveLocalStore_def cached_def getLocalStore_def read_stored_def
      localStorage_getItem_def JSON_stringify_def)

lemma loadFromSupabase_success:
  assumes "isLoggedIn w" and "\<not> refused w (length (requests w))"
  shows "loadFromSupabase w =
     (Inr (),
      saveLocalStore (status_partition (hydrated_items (id_source w) (ids_drawn w) (user_media w)))
        ((issue GetAllUserMedia w)\<lparr> ids_drawn := ids_drawn w + length (user_media w) \<rparr>))"
  using assms
  by (simp add: loadFromSupabase_def getAllUserMedia_def Let_def fill_store_eq
      append_empty_collection issue_def)

lemma forget_ids_hydrated:
  "map (\<lambda>i. i\<lparr> id_local := 0 \<rparr>) (hydrated_items src n rows) = map (supabaseToMediaItem 0) rows"
  by (induction rows arbitrary: n) (simp_all add: hydrated_items_def supabaseToMediaItem_def)

lemma without_ids_partition:
  "without_ids (status_partition xs) = status_partition (map (\<lambda>i. i\<lparr> id_local := 0 \<rparr>) xs)"
  by (simp add: without_ids_def status_partition_def filter_map o_def)

lemma without_ids_hydrated:
  "without_ids (status_partition (hydrated_items src n rows))
     = status_partition (map (supabaseToMediaItem 0) rows)"
  by (simp add: without_ids_partition forget_ids_hydrated)

lemma loaded_world:
  assumes "isLoggedIn w" and "storage_works w" and "\<not> refused w (length (requests w))"
  shows "isLoggedIn (snd (loadFromSupabase w))"
    and "storage_works (snd (loadFromSupabase w))"
    and "requests (snd (loadFromSupabase w)) = requests w @ [GetAllUserMedia]"
    and "refused (snd (loadFromSupabase w)) = refused w"
    and "user_media (snd (loadFromSupabase w)) = user_media w"
    and "id_source (snd (loadFromSupabase w)) = id_source w"
    and "dispatched (snd (loadFromSupabase w)) = Suc (dispatched w)"
    and "cached (snd (loadFromSupabase w))
      = status_partition (hydrated_items (id_source w) (ids_drawn w) (user_media w))"
proof -
  let ?w1 = "(issue GetAllUserMedia w)\<lparr> ids_drawn := ids_drawn w + length (user_media w) \<rparr>"
  have sw: "storage_works ?w1"
    using assms(2) by (simp add: storage_works_def issue_def)
  show "cached (snd (loadFromSupabase w))
      = status_partition (hydrated_items (id_source w) (ids_drawn w) (user_media w))"
    by (simp add: loadFromSupabase_success [OF assms(1,3)] cached_saved [OF sw])
qed (use assms in \<open>simp_all add: loadFromSupabase_success storage_works_def saveLocalStore_def
      issue_def isLoggedIn_def\<close>)

text \<open>
  Claim C4 as stated does not hold: \<open>supabaseToMediaItem\<close> gives every item a new
  \<open>id\<close> (\<open>Date.now() + Math.random()\<close>) each time it runs, so two calls in a row with
  the remote rows unchanged leave caches that differ in those numbers. Here one row is
  fetched twice; the cached item has \<open>id\<close> 0 after the first call and 1 after the second.
\<close>

theorem hydrating_twice_changes_ids:
  "isLoggedIn ((signed_in fresh_page)\<lparr> user_media := [sample_row 550 Movie Want_to_watch] \<rparr>)
   \<and> user_media (snd (loadFromSupabase
        ((signed_in fresh_page)\<lparr> user_media := [sample_row 550 Movie Want_to_watch] \<rparr>)))
       = [sample_row 550 Movie Want_to_watch]
   \<and> map id_local (getAllItems (snd (loadFromSupabase
        ((signed_in fresh_page)\<lparr> user_media := [sample_row 550 Movie Want_to_watch] \<rparr>)))) = [0]
   \<and> map id_local (getAllItems (snd (loadFromSupabase (snd (loadFromSupabase
        ((signed_in fresh_page)\<lparr> user_media := [sample_row 550 Movie Want_to_watch] \<rparr>)))))) = [1]
   \<and> cached (snd (loadFromSupabase (snd (loadFromSupabase
        ((signed_in fresh_page)\<lparr> user_media := [sample_row 550 Movie Want_to_watch] \<rparr>)))))
     \<noteq> cached (snd (loadFromSupabase
        ((signed_in fresh_page)\<lparr> user_media := [sample_row 550 Movie Want_to_watch] \<rparr>)))"
  by (simp add: run_defs more_defs)

text \<open>
  Claim C4, amended. When a user is signed in, \<open>localStorage\<close> works and the fetch is
  not rejected, \<open>loadFromSupabase\<close> returns normally and the cache afterwards is the
  status partition of the items made from the remote rows, whatever the stored entry and
  the \<open>emptyStore\<close> object held before; one event is dispatched and the rows are not
  changed. A second call whose fetch is not rejected either leaves the same cache up to
  the \<open>id\<close> of each item. When no user is signed in the call changes nothing.
\<close>

theorem loadFromSupabase_replaces_cache:
  "(isLoggedIn w \<and> storage_works w \<and> \<not> refused w (length (requests w)) \<longrightarrow>
      fst (loadFromSupabase w) = Inr ()
    \<and> cached (snd (loadFromSupabase w))
        = status_partition (hydrated_items (id_source w) (ids_drawn w) (user_media w))
    \<and> (\<forall>entry obj.
          cached (snd (loadFromSupabase (w\<lparr> localStorage := entry, emptyStore := obj \<rparr>)))
            = cached (snd (loadFromSupabase w)))
    \<and> dispatched (snd (loadFromSupabase w)) = Suc (dispatched w)
    \<and> user_media (snd (loadFromSupabase w)) = user_media w
    \<and> (\<not> refused w (Suc (length (requests w))) \<longrightarrow>
          without_ids (cached (snd (loadFromSupabase (snd (loadFromSupabase w)))))
            = without_ids (cached (snd (loadFromSupabase w)))))
   \<and> (\<not> isLoggedIn w \<longrightarrow> loadFromSupabase w = (Inr (), w))"
proof (intro conjI impI)
  assume "\<not> isLoggedIn w"
  then show "loadFromSupabase w = (Inr (), w)" by (simp add: loadFromSupabase_def)
next
  assume h: "isLoggedIn w \<and> storage_works w \<and> \<not> refused w (length (requests w))"
  then have l: "isLoggedIn w" and s: "storage_works w" and r: "\<not> refused w (length (requests w))"
    by simp_all
  note lw = loaded_world [OF l s r]
  show "fst (loadFromSupabase w) = Inr ()"
    by (simp add: loadFromSupabase_success [OF l r])
  show c: "cached (snd (loadFromSupabase w))
      = status_partition (hydrated_items (id_source w) (ids_drawn w) (user_media w))"
    by (rule lw)
  show "dispatched (snd (loadFromSupabase w)) = Suc (dispatched w)" by (rule lw)
  show "user_media (snd (loadFromSupabase w)) = user_media w" by (rule lw)
  show "\<forall>entry obj.
      cached (snd (loadFromSupabase (w\<lparr> localStorage := entry, emptyStore := obj \<rparr>)))
        = cached (snd (loadFromSupabase w))"
  proof (intro allI)
    fix entry obj
    let ?v = "w\<lparr> localStorage := entry, emptyStore := obj \<rparr>"
    have "isLoggedIn ?v" "storage_works ?v" "\<not> refused ?v (length (requests ?v))"
      using l s r by (simp_all add: isLoggedIn_def storage_works_def)
    from loaded_world(8) [OF this] show "cached (snd (loadFromSupabase ?v)) = cached (snd (loadFromSupabase w))"
      by (simp add: c)
  qed
  {
    assume r2: "\<not> refused w (Suc (length (requests w)))"
    let ?w1 = "snd (loadFromSupabase w)"
    have "\<not> refused ?w1 (length (requests ?w1))"
      using r2 by (simp add: lw)
    from loaded_world(8) [OF lw(1) lw(2) this]
    show "without_ids (cached (snd (loadFromSupabase ?w1))) = without_ids (cached ?w1)"
      by (simp add: c lw without_ids_hydrated)
  }
qed

theorem loadFromSupabase_replaces_cache_witness:
  "isLoggedIn ((signed_in fresh_page)\<lparr> user_media := [sample_row 550 Movie Want_to_watch] \<rparr>)
   \<and> storage_works ((signed_in fresh_page)\<lparr> user_media := [sample_row 550 Movie Want_to_watch] \<rparr>)
   \<and> \<not> refused ((signed_in fresh_page)\<lparr> user_media := [sample_row 550 Movie Want_to_watch] \<rparr>) 0
   \<and> \<not> refused ((signed_in fresh_page)\<lparr> user_media := [sample_row 550 Movie Want_to_watch] \<rparr>) 1
   \<and> cached (snd (loadFromSupabase
        ((signed_in fresh_page)\<lparr> user_media := [sample_row 550 Movie Want_to_watch] \<rparr>)))
     = \<lparr> want_to_watch = [supabaseToMediaItem 0 (sample_row 550 Movie Want_to_watch)],
         watching = [], completed = [] \<rparr>
   \<and> without_ids (cached (snd (loadFromSupabase (snd (loadFromSupabase
        ((signed_in fresh_page)\<lparr> user_media := [sample_row 550 Movie Want_to_watch] \<rparr>))))))
     = \<lparr> want_to_watch = [supabaseToMediaItem 0 (sample_row 550 Movie Want_to_watch)],
         watching = [], completed = [] \<rparr>
   \<and> \<not> isLoggedIn fresh_page
   \<and> loadFromSupabase fresh_page = (Inr (), fresh_page)"
proof -
  let ?w = "(signed_in fresh_page)\<lparr> user_media := [sample_row 550 Movie Want_to_watch] \<rparr>"
  have h: "isLoggedIn ?w" "storage_works ?w" "\<not> refused ?w (length (requests ?w))"
    "\<not> refused ?w (Suc (length (requests ?w)))" "\<not> refused ?w 0" "\<not> refused ?w 1"
    by (simp_all add: run_defs more_defs)
  have g: "\<not> isLoggedIn fresh_page" by (simp add: run_defs)
  have v: "status_partition (hydrated_items (id_source ?w) (ids_drawn ?w) (user_media ?w))
      = \<lparr> want_to_watch = [supabaseToMediaItem 0 (sample_row 550 Movie Want_to_watch)],
         watching = [], completed = [] \<rparr>"
    by (simp add: run_defs more_defs)
  have u: "without_ids \<lparr> want_to_watch = [supabaseToMediaItem 0 (sample_row 550 Movie Want_to_watch)],
         watching = [], completed = [] \<rparr> = \<lparr> want_to_watch = [supabaseToMediaItem 0 (sample_row 550 Movie Want_to_watch)],
         watching = [], completed = [] \<rparr>"
    by (simp add: without_ids_def supabaseToMediaItem_def)
  have a: "cached (snd (loadFromSupabase ?w))
      = status_partition (hydrated_items (id_source ?w) (ids_drawn ?w) (user_media ?w))"
    and b: "without_ids (cached (snd (loadFromSupabase (snd (loadFromSupabase ?w)))))
      = without_ids (cached (snd (loadFromSupabase ?w)))"
    using loadFromSupabase_replaces_cache [of ?w] h(1-4) by blast+
  have g2: "loadFromSupabase fresh_page = (Inr (), fresh_page)"
    using loadFromSupabase_replaces_cache [of fresh_page] g by blast
  show ?thesis
    unfolding b a v u using h g g2 by simp
qed

subsection \<open>migrateGuestDataToSupabase\<close>

lemma accepted_Cons:
  "accepted signed rejects n (x # xs) =
     (if signed \<and> \<not> rejects n then x # accepted signed rejects (Suc n) xs
      else accepted signed rejects (Suc n) xs)"
  by (simp add: accepted_def)

lemma length_accepted: "length (accepted signed rejects n xs) \<le> length xs"
  by (simp add: accepted_def) (metis length_filter_le length_enumerate)

lemma row_key_new_row: "row_key (new_row w n u (mediaItemToSupabase i)) = item_key i"
  by (simp add: row_key_def new_row_def mediaItemToSupabase_def item_key_def)

lemma migrate_items_eq:
  "fst (migrate_items items c w)
      = c + length (accepted (service_session w) (refused w) (length (requests w)) items)
   \<and> requests (snd (migrate_items items c w))
      = requests w @ map (\<lambda>i. AddUserMedia (mediaItemToSupabase i)) items
   \<and> map row_key (user_media (snd (migrate_items items c w)))
      = rev (map item_key (accepted (service_session w) (refused w) (length (requests w)) items))
        @ map row_key (user_media w)
   \<and> service_session (snd (migrate_items items c w)) = service_session w
   \<and> refused (snd (migrate_items items c w)) = refused w
   \<and> currentUser (snd (migrate_items items c w)) = currentUser w
   \<and> window_defined (snd (migrate_items items c w)) = window_defined w
   \<and> getItem_throws (snd (migrate_items items c w)) = getItem_throws w
   \<and> setItem_throws (snd (migrate_items items c w)) = setItem_throws w
   \<and> localStorage (snd (migrate_items items c w)) = localStorage w
   \<and> emptyStore (snd (migrate_items items c w)) = emptyStore w
   \<and> dispatched (snd (migrate_items items c w)) = dispatched w"
proof (induction items arbitrary: c w)
  case Nil
  then show ?case by (simp add: accepted_def)
next
  case (Cons item items)
  obtain res w1 where g: "addUserMedia (mediaItemToSupabase item) w = (res, w1)"
    by (cases "addUserMedia (mediaItemToSupabase item) w")
  have w1: "w1 = snd (addUserMedia (mediaItemToSupabase item) w)"
    and res: "res = fst (addUserMedia (mediaItemToSupabase item) w)"
    by (simp_all add: g)
  note fr = addUserMedia_frame [of "mediaItemToSupabase item" w, folded w1]
    addUserMedia_fields [of "mediaItemToSupabase item" w, folded w1]
    addUserMedia_requests [of "mediaItemToSupabase item" w, folded w1]
  have ss1: "service_session w1 = service_session w"
    by (simp add: service_session_def fr)
  show ?case
  proof (cases res)
    case (Inl e)
    let ?w2 = "console_error ''Error migrating item:'' w1"
    have m: "migrate_items (item # items) c w = migrate_items items c ?w2"
      by (simp add: g Inl)
    have rej: "(service_session w \<and> \<not> refused w (length (requests w))) = False"
      using Inl res
      by (auto simp: service_session_def addUserMedia_result split: option.splits if_splits)
    have rows: "user_media ?w2 = user_media w"
      using rej
      by (auto simp: service_session_def console_error_def w1 addUserMedia_rows
          split: option.splits)
    have f2: "service_session ?w2 = service_session w" "refused ?w2 = refused w"
      "requests ?w2 = requests w @ [AddUserMedia (mediaItemToSupabase item)]"
      "currentUser ?w2 = currentUser w" "window_defined ?w2 = window_defined w"
      "getItem_throws ?w2 = getItem_throws w" "setItem_throws ?w2 = setItem_throws w"
      "localStorage ?w2 = localStorage w" "emptyStore ?w2 = emptyStore w"
      "dispatched ?w2 = dispatched w"
      using ss1 by (simp_all add: service_session_def console_error_def fr)
    show ?thesis
      using Cons.IH [of c ?w2] unfolding m by (simp add: f2 rows accepted_Cons rej)
  next
    case (Inr row)
    have m: "migrate_items (item # items) c w = migrate_items items (Suc c) w1"
      by (simp add: g Inr)
    have acc: "(service_session w \<and> \<not> refused w (length (requests w))) = True"
      using Inr res
      by (auto simp: service_session_def addUserMedia_result split: option.splits if_splits)
    then obtain u where u: "auth_user w = Some u" by (auto simp: service_session_def)
    have rows: "user_media w1
        = new_row w (length (requests w)) u (mediaItemToSupabase item) # user_media w"
      using acc u by (simp add: w1 addUserMedia_rows)
    show ?thesis
      using Cons.IH [of "Suc c" w1] unfolding m
      by (simp add: fr ss1 rows accepted_Cons row_key_new_row acc)
  qed
qed

lemma loadFromSupabase_frame:
  "fst (loadFromSupabase w) = Inr ()"
  "user_media (snd (loadFromSupabase w)) = user_media w"
  "requests (snd (loadFromSupabase w))
     = (if isLoggedIn w then requests w @ [GetAllUserMedia] else requests w)"
  by (simp_all add: loadFromSupabase_def getAllUserMedia_def issue_def console_error_def
      Let_def fill_store_eq saveLocalStore_def)

lemma keys_of_partition:
  "map item_key (store_get s (status_partition (hydrated_items src n rows)))
     = map row_key (filter (\<lambda>r. UserMediaInsert.status r = s) rows)"
proof (induction rows arbitrary: n)
  case Nil
  then show ?case by (cases s) (simp_all add: hydrated_items_def status_partition_def)
next
  case (Cons row rows)
  have k: "item_key (supabaseToMediaItem (src n) row) = row_key row"
    by (simp add: item_key_def row_key_def supabaseToMediaItem_def)
  show ?case
    using Cons.IH [of "Suc n"]
    by (cases s) (simp_all add: hydrated_items_Cons status_partition_def k)
qed

lemma rows_from_cong:
  assumes "auth_user w' = auth_user w" and "refused w' = refused w"
    and "new_uuid w' = new_uuid w" and "timestamp w' = timestamp w"
  shows "rows_from w' n items = rows_from w n items"
proof -
  have "new_row w' = new_row w"
    using assms by (simp add: fun_eq_iff new_row_def)
  then show ?thesis
    using assms by (simp add: rows_from_def split: option.splits)
qed

lemma rows_from_Cons:
  "rows_from w n (x # xs) =
     (case auth_user w of
        None \<Rightarrow> []
      | Some u \<Rightarrow>
          if refused w n then rows_from w (Suc n) xs
          else new_row w n u (mediaItemToSupabase x) # rows_from w (Suc n) xs)"
  by (simp add: rows_from_def split: option.splits)

lemma rows_from_None: "auth_user w = None \<Longrightarrow> rows_from w n xs = []"
  by (simp add: rows_from_def)

lemma addUserMedia_generators:
  "new_uuid (snd (addUserMedia d w)) = new_uuid w"
  "timestamp (snd (addUserMedia d w)) = timestamp w"
  by (simp_all add: addUserMedia_def issue_def console_error_def Let_def split: option.splits)

lemma migrate_items_rows:
  "user_media (snd (migrate_items items c w))
      = rev (rows_from w (length (requests w)) items) @ user_media w
   \<and> id_source (snd (migrate_items items c w)) = id_source w
   \<and> ids_drawn (snd (migrate_items items c w)) = ids_drawn w"
proof (induction items arbitrary: c w)
  case Nil
  then show ?case by (simp add: rows_from_def split: option.splits)
next
  case (Cons item items)
  obtain res w1 where g: "addUserMedia (mediaItemToSupabase item) w = (res, w1)"
    by (cases "addUserMedia (mediaItemToSupabase item) w")
  have w1: "w1 = snd (addUserMedia (mediaItemToSupabase item) w)"
    and res: "res = fst (addUserMedia (mediaItemToSupabase item) w)"
    by (simp_all add: g)
  note fr = addUserMedia_frame [of "mediaItemToSupabase item" w, folded w1]
    addUserMedia_generators [of "mediaItemToSupabase item" w, folded w1]
    addUserMedia_requests [of "mediaItemToSupabase item" w, folded w1]
  show ?case
  proof (cases res)
    case (Inl e)
    let ?w2 = "console_error ''Error migrating item:'' w1"
    have m: "migrate_items (item # items) c w = migrate_items items c ?w2"
      by (simp add: g Inl)
    have cg: "rows_from ?w2 n items = rows_from w n items" for n
      by (rule rows_from_cong) (simp_all add: console_error_def fr)
    have f2: "requests ?w2 = requests w @ [AddUserMedia (mediaItemToSupabase item)]"
      "id_source ?w2 = id_source w" "ids_drawn ?w2 = ids_drawn w"
      by (simp_all add: console_error_def fr)
    have rows: "user_media ?w2 = user_media w"
      and hd: "rows_from w (length (requests w)) (item # items)
        = rows_from w (Suc (length (requests w))) items"
      using Inl res
      by (auto simp: console_error_def w1 addUserMedia_rows addUserMedia_result rows_from_Cons
          rows_from_None split: option.splits if_splits)
    show ?thesis
      using Cons.IH [of c ?w2] unfolding m by (simp add: f2 rows hd cg)
  next
    case (Inr row)
    have m: "migrate_items (item # items) c w = migrate_items items (Suc c) w1"
      by (simp add: g Inr)
    have cg: "rows_from w1 n items = rows_from w n items" for n
      by (rule rows_from_cong) (simp_all add: fr)
    have rows: "user_media w1 = row # user_media w"
      using g unfolding Inr by (rule addUserMedia_accepts)
    have hd: "rows_from w (length (requests w)) (item # items)
        = row # rows_from w (Suc (length (requests w))) items"
      using Inr res
      by (auto simp: addUserMedia_result rows_from_Cons split: option.splits if_splits)
    show ?thesis
      using Cons.IH [of "Suc c" w1] unfolding m by (simp add: fr rows hd cg)
  qed
qed

lemma loadFromSupabase_refused:
  assumes "isLoggedIn w" and "refused w (length (requests w))"
  shows "loadFromSupabase w =
     (Inr (),
      console_error ''Error loading from Supabase:''
        (console_error ''Error fetching user media:'' (issue GetAllUserMedia w)))"
  using assms by (simp add: loadFromSupabase_def getAllUserMedia_def Let_def)

text \<open>
  Claim C3 as stated does not hold: \<open>loadFromSupabase\<close> swallows a failed fetch, so
  when the final fetch fails the migration still returns its count and the cache is what
  it was, rejected items included. Here the guest has items 1, 2 and 3, the insert of
  item 2 and the final fetch are rejected: the call returns 2, the remote rows are those
  of items 3 and 1, and the cache still holds items 1, 2 and 3.
\<close>

theorem failed_rehydrate_keeps_rejected_item:
  "isLoggedIn ((signed_in guest_ABC)\<lparr> refused := (\<lambda>n. n = 1 \<or> n = 3) \<rparr>)
   \<and> storage_works ((signed_in guest_ABC)\<lparr> refused := (\<lambda>n. n = 1 \<or> n = 3) \<rparr>)
   \<and> fst (migrateGuestDataToSupabase
        ((signed_in guest_ABC)\<lparr> refused := (\<lambda>n. n = 1 \<or> n = 3) \<rparr>)) = Inr 2
   \<and> map row_key (user_media (snd (migrateGuestDataToSupabase
        ((signed_in guest_ABC)\<lparr> refused := (\<lambda>n. n = 1 \<or> n = 3) \<rparr>))))
       = [(3, Tv), (1, Movie)]
   \<and> map item_key (getAllItems (snd (migrateGuestDataToSupabase
        ((signed_in guest_ABC)\<lparr> refused := (\<lambda>n. n = 1 \<or> n = 3) \<rparr>))))
       = [(1, Movie), (2, Movie), (3, Tv)]
   \<and> isInList 2 Movie (snd (migrateGuestDataToSupabase
        ((signed_in guest_ABC)\<lparr> refused := (\<lambda>n. n = 1 \<or> n = 3) \<rparr>)))"
  by (simp add: guest_ABC_def run_defs more_defs)

text \<open>
  Claim C3, amended. For a signed-in user, \<open>migrateGuestDataToSupabase\<close> with no cached
  item returns 0 without a service call and without touching the remote rows or the
  cache. With \<open>N > 0\<close> cached items it calls \<open>addUserMedia\<close> once for every item, in
  order, whichever of the calls fail, then fetches once; it returns the number \<open>K \<le> N\<close>
  of accepted items; the remote rows are then the rows made of the accepted items,
  newest first, in front of the rows there were. When \<open>localStorage\<close> works and the
  final fetch is answered, the cache is the status partition of the items converted from
  those remote rows, so each list holds, in order, exactly the keys of the remote rows
  with that status. When the final fetch is rejected, the cache, the stored entry and the
  number of dispatched events are what they were before the call.
\<close>

theorem migrateGuestDataToSupabase_best_effort:
  assumes "isLoggedIn w"
  shows "(getAllItems w = [] \<longrightarrow>
            fst (migrateGuestDataToSupabase w) = Inr 0
          \<and> requests (snd (migrateGuestDataToSupabase w)) = requests w
          \<and> user_media (snd (migrateGuestDataToSupabase w)) = user_media w
          \<and> cached (snd (migrateGuestDataToSupabase w)) = cached w)
       \<and> (getAllItems w \<noteq> [] \<longrightarrow>
            fst (migrateGuestDataToSupabase w) = Inr (length (accepted_items w (getAllItems w)))
          \<and> length (accepted_items w (getAllItems w)) \<le> length (getAllItems w)
          \<and> requests (snd (migrateGuestDataToSupabase w))
              = requests w @ map (\<lambda>i. AddUserMedia (mediaItemToSupabase i)) (getAllItems w)
                @ [GetAllUserMedia]
          \<and> user_media (snd (migrateGuestDataToSupabase w))
              = rev (accepted_rows w (getAllItems w)) @ user_media w
          \<and> map row_key (user_media (snd (migrateGuestDataToSupabase w)))
              = rev (map item_key (accepted_items w (getAllItems w))) @ map row_key (user_media w)
          \<and> (storage_works w \<and> \<not> refused w (length (requests w) + length (getAllItems w)) \<longrightarrow>
                cached (snd (migrateGuestDataToSupabase w))
                  = status_partition (hydrated_items (id_source w) (ids_drawn w)
                      (user_media (snd (migrateGuestDataToSupabase w))))
              \<and> (\<forall>s. map item_key (getByStatus s (snd (migrateGuestDataToSupabase w)))
                      = map row_key (filter (\<lambda>r. UserMediaInsert.status r = s)
                          (user_media (snd (migrateGuestDataToSupabase w))))))
          \<and> (refused w (length (requests w) + length (getAllItems w)) \<longrightarrow>
                cached (snd (migrateGuestDataToSupabase w)) = cached w
              \<and> localStorage (snd (migrateGuestDataToSupabase w)) = localStorage w
              \<and> dispatched (snd (migrateGuestDataToSupabase w)) = dispatched w))"
proof (cases "getAllItems w = []")
  case True
  have c: "cached (after_read w) = cached w"
    by (rule cached_cong) simp_all
  have "migrateGuestDataToSupabase w = (Inr 0, after_read w)"
    using assms True
    by (simp add: migrateGuestDataToSupabase_def getLocalStore_eq deref_after_read getAllItems_def)
  then show ?thesis using True by (simp add: c)
next
  case False
  let ?items = "getAllItems w"
  let ?w1 = "after_read w"
  let ?w2 = "snd (migrate_items ?items 0 ?w1)"
  let ?w3 = "snd (loadFromSupabase ?w2)"
  have ss: "service_session ?w1 = service_session w"
    by (simp add: service_session_def)
  note mi = migrate_items_eq [of ?items 0 ?w1, simplified ss after_read_fields]
  note mr = migrate_items_rows [of ?items 0 ?w1, simplified after_read_fields]
  have rf: "rows_from ?w1 (length (requests w)) ?items = accepted_rows w ?items"
    unfolding accepted_rows_def
    by (rule rows_from_cong) (simp_all add: after_read_def getLocalStore_def console_error_def
        split: sum.splits)
  have acc: "accepted (service_session w) (refused w) (length (requests w)) ?items
      = accepted_items w ?items"
    by (simp add: accepted_items_def)
  have mig: "migrateGuestDataToSupabase w = (Inr (fst (migrate_items ?items 0 ?w1)), ?w3)"
    using assms False
    by (simp add: migrateGuestDataToSupabase_def getLocalStore_eq deref_after_read getAllItems_def
        split_beta loadFromSupabase_frame)
  have l2: "isLoggedIn ?w2"
    using assms mi by (simp add: isLoggedIn_def)
  have count: "fst (migrateGuestDataToSupabase w) = Inr (length (accepted_items w ?items))"
    using mi by (simp add: mig acc)
  have le: "length (accepted_items w ?items) \<le> length ?items"
    by (simp add: accepted_items_def length_accepted)
  have req: "requests (snd (migrateGuestDataToSupabase w))
      = requests w @ map (\<lambda>i. AddUserMedia (mediaItemToSupabase i)) ?items @ [GetAllUserMedia]"
    using mi l2 by (simp add: mig loadFromSupabase_frame)
  have full: "user_media (snd (migrateGuestDataToSupabase w))
      = rev (accepted_rows w ?items) @ user_media w"
    using mr by (simp add: mig loadFromSupabase_frame rf)
  have rows: "map row_key (user_media (snd (migrateGuestDataToSupabase w)))
      = rev (map item_key (accepted_items w ?items)) @ map row_key (user_media w)"
    using mi by (simp add: mig loadFromSupabase_frame acc)
  have cache: "cached (snd (migrateGuestDataToSupabase w))
        = status_partition (hydrated_items (id_source w) (ids_drawn w)
            (user_media (snd (migrateGuestDataToSupabase w))))
      \<and> (\<forall>s. map item_key (getByStatus s (snd (migrateGuestDataToSupabase w)))
        = map row_key (filter (\<lambda>r. UserMediaInsert.status r = s)
            (user_media (snd (migrateGuestDataToSupabase w)))))"
    if sw: "storage_works w" and ok: "\<not> refused w (length (requests w) + length ?items)"
  proof -
    have sw2: "storage_works ?w2"
      using sw mi by (simp add: storage_works_def)
    have ok2: "\<not> refused ?w2 (length (requests ?w2))"
      using ok mi by simp
    have c3: "cached ?w3
        = status_partition (hydrated_items (id_source ?w2) (ids_drawn ?w2) (user_media ?w2))"
      by (rule loaded_world(8) [OF l2 sw2 ok2])
    have c4: "cached (snd (migrateGuestDataToSupabase w))
        = status_partition (hydrated_items (id_source w) (ids_drawn w)
            (user_media (snd (migrateGuestDataToSupabase w))))"
      using c3 mr by (simp add: mig loadFromSupabase_frame)
    have "map item_key (getByStatus s (snd (migrateGuestDataToSupabase w)))
        = map row_key (filter (\<lambda>r. UserMediaInsert.status r = s)
            (user_media (snd (migrateGuestDataToSupabase w))))" for s
      unfolding getByStatus_def c4 by (rule keys_of_partition)
    with c4 show ?thesis by blast
  qed
  have kept: "cached (snd (migrateGuestDataToSupabase w)) = cached w
      \<and> localStorage (snd (migrateGuestDataToSupabase w)) = localStorage w
      \<and> dispatched (snd (migrateGuestDataToSupabase w)) = dispatched w"
    if no: "refused w (length (requests w) + length ?items)"
  proof -
    have no2: "refused ?w2 (length (requests ?w2))"
      using no mi by simp
    note l3 = loadFromSupabase_refused [OF l2 no2]
    have f: "window_defined ?w3 = window_defined w" "getItem_throws ?w3 = getItem_throws w"
      "localStorage ?w3 = localStorage w" "emptyStore ?w3 = emptyStore w"
      "dispatched ?w3 = dispatched w"
      using mi by (simp_all add: l3 console_error_def issue_def)
    have "cached ?w3 = cached w"
      by (rule cached_cong) (simp_all add: f)
    then show ?thesis by (simp add: mig f)
  qed
  show ?thesis
    using False count le req full rows cache kept by blast
qed

theorem migrateGuestDataToSupabase_best_effort_witness:
  "isLoggedIn ((signed_in guest_ABC)\<lparr> refused := (\<lambda>n. n = 1) \<rparr>)
   \<and> storage_works ((signed_in guest_ABC)\<lparr> refused := (\<lambda>n. n = 1) \<rparr>)
   \<and> getAllItems ((signed_in guest_ABC)\<lparr> refused := (\<lambda>n. n = 1) \<rparr>)
       = [sample_item 1 Movie Want_to_watch, sample_item 2 Movie Want_to_watch,
          sample_item 3 Tv Watching]
   \<and> fst (migrateGuestDataToSupabase ((signed_in guest_ABC)\<lparr> refused := (\<lambda>n. n = 1) \<rparr>)) = Inr 2
   \<and> map row_key (user_media (snd (migrateGuestDataToSupabase
         ((signed_in guest_ABC)\<lparr> refused := (\<lambda>n. n = 1) \<rparr>)))) = [(3, Tv), (1, Movie)]
   \<and> map item_key (getByStatus Want_to_watch (snd (migrateGuestDataToSupabase
         ((signed_in guest_ABC)\<lparr> refused := (\<lambda>n. n = 1) \<rparr>)))) = [(1, Movie)]
   \<and> map item_key (getByStatus Watching (snd (migrateGuestDataToSupabase
         ((signed_in guest_ABC)\<lparr> refused := (\<lambda>n. n = 1) \<rparr>)))) = [(3, Tv)]
   \<and> map item_key (getByStatus Completed (snd (migrateGuestDataToSupabase
         ((signed_in guest_ABC)\<lparr> refused := (\<lambda>n. n = 1) \<rparr>)))) = []
   \<and> isLoggedIn ((signed_in guest_ABC)\<lparr> refused := (\<lambda>n. n = 1 \<or> n = 3) \<rparr>)
   \<and> refused ((signed_in guest_ABC)\<lparr> refused := (\<lambda>n. n = 1 \<or> n = 3) \<rparr>) 3
   \<and> cached (snd (migrateGuestDataToSupabase
         ((signed_in guest_ABC)\<lparr> refused := (\<lambda>n. n = 1 \<or> n = 3) \<rparr>)))
       = \<lparr> want_to_watch = [sample_item 1 Movie Want_to_watch, sample_item 2 Movie Want_to_watch],
           watching = [sample_item 3 Tv Watching], completed = [] \<rparr>
   \<and> isLoggedIn (signed_in fresh_page)
   \<and> getAllItems (signed_in fresh_page) = []
   \<and> fst (migrateGuestDataToSupabase (signed_in fresh_page)) = Inr 0
   \<and> requests (snd (migrateGuestDataToSupabase (signed_in fresh_page))) = []"
proof -
  let ?w = "(signed_in guest_ABC)\<lparr> refused := (\<lambda>n. n = 1) \<rparr>"
  let ?v = "(signed_in guest_ABC)\<lparr> refused := (\<lambda>n. n = 1 \<or> n = 3) \<rparr>"
  let ?items = "[sample_item 1 Movie Want_to_watch, sample_item 2 Movie Want_to_watch,
          sample_item 3 Tv Watching]"
  let ?rows = "user_media (snd (migrateGuestDataToSupabase ?w))"
  have h: "isLoggedIn ?w" and sw: "storage_works ?w" and i: "getAllItems ?w = ?items"
    and ok: "\<not> refused ?w (length (requests ?w) + length (getAllItems ?w))"
    by (simp_all add: guest_ABC_def run_defs more_defs)
  have ne: "getAllItems ?w \<noteq> []" unfolding i by simp
  have a: "accepted_items ?w ?items = [sample_item 1 Movie Want_to_watch, sample_item 3 Tv Watching]"
    by (simp add: guest_ABC_def run_defs more_defs)
  have k: "map item_key [sample_item 1 Movie Want_to_watch, sample_item 3 Tv Watching]
      = [(1, Movie), (3, Tv)]"
    by (simp add: item_key_def sample_item_def)
  have r: "map row_key (user_media ?w) = []"
    by (simp add: guest_ABC_def run_defs)
  have c: "fst (migrateGuestDataToSupabase ?w) = Inr (length (accepted_items ?w (getAllItems ?w)))"
    and m: "map row_key ?rows
      = rev (map item_key (accepted_items ?w (getAllItems ?w))) @ map row_key (user_media ?w)"
    and q: "map item_key (getByStatus s (snd (migrateGuestDataToSupabase ?w)))
      = map row_key (filter (\<lambda>r. UserMediaInsert.status r = s) ?rows)" for s
    using migrateGuestDataToSupabase_best_effort [OF h] ne sw ok by blast+
  have c': "fst (migrateGuestDataToSupabase ?w) = Inr 2"
    unfolding c i a by simp
  have m': "map row_key ?rows = [(3, Tv), (1, Movie)]"
    unfolding m i a k r by simp
  have f: "map row_key (filter (\<lambda>r. UserMediaInsert.status r = Want_to_watch) ?rows) = [(1, Movie)]"
    "map row_key (filter (\<lambda>r. UserMediaInsert.status r = Watching) ?rows) = [(3, Tv)]"
    "map row_key (filter (\<lambda>r. UserMediaInsert.status r = Completed) ?rows) = []"
    by (simp_all add: guest_ABC_def run_defs more_defs)
  have hv: "isLoggedIn ?v" and nev: "getAllItems ?v \<noteq> []"
    and no: "refused ?v (length (requests ?v) + length (getAllItems ?v))" and no3: "refused ?v 3"
    and cv: "cached ?v
      = \<lparr> want_to_watch = [sample_item 1 Movie Want_to_watch, sample_item 2 Movie Want_to_watch],
           watching = [sample_item 3 Tv Watching], completed = [] \<rparr>"
    by (simp_all add: guest_ABC_def run_defs more_defs)
  have kept: "cached (snd (migrateGuestDataToSupabase ?v)) = cached ?v"
    using migrateGuestDataToSupabase_best_effort [OF hv] nev no by blast
  have e: "isLoggedIn (signed_in fresh_page)" "getAllItems (signed_in fresh_page) = []"
    "requests (signed_in fresh_page) = []"
    by (simp_all add: run_defs)
  have z: "fst (migrateGuestDataToSupabase (signed_in fresh_page)) = Inr 0"
    "requests (snd (migrateGuestDataToSupabase (signed_in fresh_page)))
      = requests (signed_in fresh_page)"
    using migrateGuestDataToSupabase_best_effort [OF e(1)] e(2) by blast+
  show ?thesis
    using h sw i c' m' q [of Want_to_watch] q [of Watching] q [of Completed] e z hv no3
      kept [unfolded cv]
    unfolding f by simp
qed

subsection \<open>Sequences of guest calls\<close>

lemma has_key_iff: "has_key t m i = (item_key i = (t, m))"
  by (auto simp: has_key_def item_key_def)

lemma keys_push:
  assumes "distinct (keys_of st)" and "item_key i \<notin> set (keys_of st)"
  shows "distinct (keys_of (push s i st))"
    and "set (keys_of (push s i st)) = insert (item_key i) (set (keys_of st))"
  using assms by (cases s; auto simp: keys_of_def all_items_def push_def)+

lemma keys_without_key:
  assumes "distinct (keys_of st)"
  shows "distinct (keys_of (without_key t m st))"
    and "set (keys_of (without_key t m st)) = set (keys_of st) - {(t, m)}"
  using assms
  by (auto simp: keys_of_def all_items_def without_key_def distinct_map_filter has_key_iff)

lemma keys_remove_one:
  assumes "distinct (keys_of st)" and "i \<in> set (store_get s st)" and "has_key t m i"
  shows "distinct (keys_of (store_set s (filter (\<lambda>i. \<not> has_key t m i) (store_get s st)) st))"
    and "set (keys_of (store_set s (filter (\<lambda>i. \<not> has_key t m i) (store_get s st)) st))
          = set (keys_of st) - {(t, m)}"
  using assms
  by (cases s; auto simp: keys_of_def all_items_def distinct_map_filter has_key_iff)+

lemma find_in_list:
  assumes "find (has_key t m) xs = Some i"
  shows "i \<in> set xs" and "has_key t m i"
  using assms by (auto simp: find_Some_iff)

lemma find_and_remove_cases:
  assumes "find_and_remove [Want_to_watch, Watching, Completed] t m st = (r, st')"
  shows "(r = None \<and> st' = st)
    \<or> (\<exists>s i. r = Some i \<and> i \<in> set (store_get s st) \<and> has_key t m i
          \<and> st' = store_set s (filter (\<lambda>i. \<not> has_key t m i) (store_get s st)) st)"
proof (cases "find (has_key t m) (store_get Want_to_watch st)")
  case (Some i)
  then have "r = Some i"
    and "st' = store_set Want_to_watch
      (filter (\<lambda>i. \<not> has_key t m i) (store_get Want_to_watch st)) st"
    using assms by simp_all
  then show ?thesis using find_in_list [OF Some] by blast
next
  case w: None
  show ?thesis
  proof (cases "find (has_key t m) (store_get Watching st)")
    case (Some i)
    then have "r = Some i"
      and "st' = store_set Watching (filter (\<lambda>i. \<not> has_key t m i) (store_get Watching st)) st"
      using assms w by simp_all
    then show ?thesis using find_in_list [OF Some] by blast
  next
    case wa: None
    show ?thesis
    proof (cases "find (has_key t m) (store_get Completed st)")
      case (Some i)
      then have "r = Some i"
        and "st' = store_set Completed
          (filter (\<lambda>i. \<not> has_key t m i) (store_get Completed st)) st"
        using assms w wa by simp_all
      then show ?thesis using find_in_list [OF Some] by blast
    next
      case None
      then have "r = None" and "st' = st"
        using assms w wa by simp_all
      then show ?thesis by simp
    qed
  qed
qed

lemma effect_keys:
  assumes "distinct (keys_of st)"
  shows "distinct (keys_of (effect c st)) \<and> set (keys_of (effect c st)) = track (set (keys_of st)) c"
proof (cases c)
  case (AddToList item)
  have ex: "list_ex (has_key (tmdbId item) (mediaType item)) (all_items st)
      = (item_key item \<in> set (keys_of st))"
  proof -
    have "(\<exists>x\<in>set (all_items st). item_key x = item_key item)
        = (item_key item \<in> item_key ` set (all_items st))"
      by (metis (no_types, lifting) image_iff)
    then show ?thesis
      by (simp add: list_ex_iff has_key_iff keys_of_def) (simp add: item_key_def)
  qed
  show ?thesis
    using assms keys_push [OF assms, of item "MediaItem.status item"]
    by (auto simp: AddToList effect_def ex)
next
  case (RemoveFromList t m)
  then show ?thesis
    using keys_without_key [OF assms, of t m] by (simp add: effect_def)
next
  case (UpdateStatus t m newStatus)
  obtain r st' where f: "find_and_remove [Want_to_watch, Watching, Completed] t m st = (r, st')"
    by (cases "find_and_remove [Want_to_watch, Watching, Completed] t m st")
  have e: "effect (UpdateStatus t m newStatus) st
      = (case r of None \<Rightarrow> st
         | Some item \<Rightarrow> push newStatus (item\<lparr> MediaItem.status := newStatus \<rparr>) st')"
    by (simp add: effect_def f del: find_and_remove.simps)
  from find_and_remove_cases [OF f] show ?thesis
  proof (elim disjE conjE exE)
    assume "r = None" "st' = st"
    then show ?thesis using assms by (simp add: UpdateStatus e)
  next
    fix s i
    assume r: "r = Some i" and i: "i \<in> set (store_get s st)" and k: "has_key t m i"
      and st': "st' = store_set s (filter (\<lambda>i. \<not> has_key t m i) (store_get s st)) st"
    let ?j = "i\<lparr> MediaItem.status := newStatus \<rparr>"
    have kj: "item_key ?j = (t, m)"
      using k by (simp add: has_key_iff item_key_def)
    have d: "distinct (keys_of st')" and ks: "set (keys_of st') = set (keys_of st) - {(t, m)}"
      using keys_remove_one [OF assms i k] by (simp_all add: st')
    have "i \<in> set (all_items st)"
      using i by (cases s) (auto simp: all_items_def)
    then have "item_key i \<in> set (keys_of st)"
      by (simp add: keys_of_def)
    then have inK: "(t, m) \<in> set (keys_of st)"
      using k by (simp add: has_key_iff)
    have notin: "item_key ?j \<notin> set (keys_of st')"
      by (simp add: kj ks)
    show ?thesis
      using keys_push [OF d notin, of newStatus] inK
      by (auto simp: UpdateStatus e r kj ks)
  qed
qed

lemma write_back_fields:
  "window_defined (write_back r st v) = window_defined v"
  "getItem_throws (write_back r st v) = getItem_throws v"
  "setItem_throws (write_back r st v) = setItem_throws v"
  "currentUser (write_back r st v) = currentUser v"
  by (cases r; simp)+

lemma saved_through_ref:
  assumes "storage_works w"
  shows "cached (saveLocalStore st (write_back (local_ref w) st (after_read w))) = st"
    and "storage_works (saveLocalStore st (write_back (local_ref w) st (after_read w)))"
    and "isLoggedIn (saveLocalStore st (write_back (local_ref w) st (after_read w))) = isLoggedIn w"
proof -
  let ?v = "write_back (local_ref w) st (after_read w)"
  have sw: "storage_works ?v"
    using assms by (simp add: storage_works_def write_back_fields)
  show "cached (saveLocalStore st ?v) = st"
    by (rule cached_saved [OF sw])
  show "storage_works (saveLocalStore st ?v)"
    using sw by (simp add: storage_works_def saveLocalStore_def)
  show "isLoggedIn (saveLocalStore st ?v) = isLoggedIn w"
    using sw by (simp add: storage_works_def saveLocalStore_def isLoggedIn_def write_back_fields)
qed

lemma warned:
  "storage_works (console_warn msg (after_read w)) = storage_works w"
  "isLoggedIn (console_warn msg (after_read w)) = isLoggedIn w"
  by (simp_all add: storage_works_def isLoggedIn_def console_warn_def)

lemma perform_guest:
  assumes "\<not> isLoggedIn w" and "storage_works w"
  shows "fst (perform c w) = Inr ()
    \<and> cached (snd (perform c w)) = effect c (cached w)
    \<and> \<not> isLoggedIn (snd (perform c w))
    \<and> storage_works (snd (perform c w))"
proof (cases c)
  case (AddToList item)
  show ?thesis
    using assms
    by (simp add: AddToList effect_def addToList_def addToList_local_def getLocalStore_eq
        deref_after_read saved_through_ref warned local_noop_fields)
next
  case (RemoveFromList t m)
  show ?thesis
    using assms
    by (simp add: RemoveFromList effect_def removeFromList_def removeFromList_local_def
        getLocalStore_eq deref_after_read saved_through_ref)
next
  case (UpdateStatus t m newStatus)
  obtain r st' where f:
    "find_and_remove [Want_to_watch, Watching, Completed] t m (cached w) = (r, st')"
    by (cases "find_and_remove [Want_to_watch, Watching, Completed] t m (cached w)")
  show ?thesis
    using assms
    by (cases r)
      (simp_all add: UpdateStatus effect_def updateStatus_def updateStatus_local_def
        getLocalStore_eq deref_after_read f saved_through_ref warned local_noop_fields
        del: find_and_remove.simps)
qed

lemma perform_all_snoc: "perform_all (calls @ [c]) w = snd (perform c (perform_all calls w))"
  by (simp add: perform_all_def)

lemma added_not_removed_snoc:
  "added_not_removed (calls @ [c]) = track (added_not_removed calls) c"
  by (simp add: added_not_removed_def)

lemma perform_all_guest:
  assumes "\<not> isLoggedIn w" and "storage_works w" and "getAllItems w = []"
  shows "\<not> isLoggedIn (perform_all calls w)
    \<and> storage_works (perform_all calls w)
    \<and> distinct (keys_of (cached (perform_all calls w)))
    \<and> set (keys_of (cached (perform_all calls w))) = added_not_removed calls"
proof (induction calls rule: rev_induct)
  case Nil
  show ?case
    using assms by (simp add: perform_all_def added_not_removed_def keys_of_def getAllItems_def)
next
  case (snoc c calls)
  let ?v = "perform_all calls w"
  from snoc have g: "\<not> isLoggedIn ?v" and sw: "storage_works ?v"
    and d: "distinct (keys_of (cached ?v))"
    and k: "set (keys_of (cached ?v)) = added_not_removed calls"
    by simp_all
  show ?case
    using perform_guest [OF g sw, of c] effect_keys [OF d, of c]
    by (simp add: perform_all_snoc added_not_removed_snoc k)
qed

text \<open>
  Claim C1. Let a guest, in a browser whose \<open>localStorage\<close> works, start with an empty
  collection and make any sequence of \<open>addToList\<close>, \<open>removeFromList\<close> and \<open>updateStatus\<close>
  calls. Afterwards no key (tmdbId, mediaType) occurs in two of the three lists
  \<open>getByStatus\<close> returns, nor twice in one, and the keys in the three lists together are
  exactly the keys added and not subsequently removed.
\<close>

theorem guest_partitions_disjoint:
  assumes "\<not> isLoggedIn w" and "storage_works w" and "getAllItems w = []"
  shows "set (map item_key (getByStatus Want_to_watch (perform_all calls w)))
          \<inter> set (map item_key (getByStatus Watching (perform_all calls w))) = {}
    \<and> set (map item_key (getByStatus Want_to_watch (perform_all calls w)))
          \<inter> set (map item_key (getByStatus Completed (perform_all calls w))) = {}
    \<and> set (map item_key (getByStatus Watching (perform_all calls w)))
          \<inter> set (map item_key (getByStatus Completed (perform_all calls w))) = {}
    \<and> set (map item_key (getByStatus Want_to_watch (perform_all calls w)))
          \<union> set (map item_key (getByStatus Watching (perform_all calls w)))
          \<union> set (map item_key (getByStatus Completed (perform_all calls w)))
        = added_not_removed calls
    \<and> distinct (map item_key (getAllItems (perform_all calls w)))"
proof -
  let ?st = "cached (perform_all calls w)"
  have d: "distinct (keys_of ?st)" and k: "set (keys_of ?st) = added_not_removed calls"
    using perform_all_guest [OF assms, of calls] by simp_all
  have ks: "keys_of ?st = map item_key (want_to_watch ?st) @ map item_key (watching ?st)
      @ map item_key (completed ?st)"
    by (simp add: keys_of_def all_items_def)
  show ?thesis
    using d k unfolding ks
    by (auto simp: getByStatus_def getAllItems_def all_items_def)
qed

theorem guest_partitions_disjoint_witness:
  "\<not> isLoggedIn fresh_page \<and> storage_works fresh_page \<and> getAllItems fresh_page = []
   \<and> set (map item_key (getByStatus Want_to_watch (perform_all
        [AddToList (sample_item 550 Movie Want_to_watch), UpdateStatus 550 Movie Watching,
         AddToList (sample_item 1399 Tv Want_to_watch), RemoveFromList 1399 Tv] fresh_page)))
     \<union> set (map item_key (getByStatus Watching (perform_all
        [AddToList (sample_item 550 Movie Want_to_watch), UpdateStatus 550 Movie Watching,
         AddToList (sample_item 1399 Tv Want_to_watch), RemoveFromList 1399 Tv] fresh_page)))
     \<union> set (map item_key (getByStatus Completed (perform_all
        [AddToList (sample_item 550 Movie Want_to_watch), UpdateStatus 550 Movie Watching,
         AddToList (sample_item 1399 Tv Want_to_watch), RemoveFromList 1399 Tv] fresh_page)))
     = {(550, Movie)}
   \<and> getByStatus Want_to_watch (perform_all
        [AddToList (sample_item 550 Movie Want_to_watch), UpdateStatus 550 Movie Watching,
         AddToList (sample_item 1399 Tv Want_to_watch), RemoveFromList 1399 Tv] fresh_page) = []
   \<and> getByStatus Watching (perform_all
        [AddToList (sample_item 550 Movie Want_to_watch), UpdateStatus 550 Movie Watching,
         AddToList (sample_item 1399 Tv Want_to_watch), RemoveFromList 1399 Tv] fresh_page)
     = [sample_item 550 Movie Watching]
   \<and> getByStatus Completed (perform_all
        [AddToList (sample_item 550 Movie Want_to_watch), UpdateStatus 550 Movie Watching,
         AddToList (sample_item 1399 Tv Want_to_watch), RemoveFromList 1399 Tv] fresh_page) = []"
proof -
  let ?calls = "[AddToList (sample_item 550 Movie Want_to_watch), UpdateStatus 550 Movie Watching,
         AddToList (sample_item 1399 Tv Want_to_watch), RemoveFromList 1399 Tv]"
  have h: "\<not> isLoggedIn fresh_page" "storage_works fresh_page" "getAllItems fresh_page = []"
    by (simp_all add: run_defs more_defs)
  have k: "added_not_removed ?calls = {(550, Movie)}"
    by (simp add: added_not_removed_def item_key_def sample_item_def)
  have c: "cached (perform_all ?calls fresh_page)
     = \<lparr> want_to_watch = [], watching = [sample_item 550 Movie Watching], completed = [] \<rparr>"
    by (simp add: run_defs more_defs)
  have u: "set (map item_key (getByStatus Want_to_watch (perform_all ?calls fresh_page)))
     \<union> set (map item_key (getByStatus Watching (perform_all ?calls fresh_page)))
     \<union> set (map item_key (getByStatus Completed (perform_all ?calls fresh_page)))
     = {(550, Movie)}"
    using guest_partitions_disjoint [OF h, of ?calls] unfolding k by blast
  have l: "getByStatus Want_to_watch (perform_all ?calls fresh_page) = []"
    "getByStatus Watching (perform_all ?calls fresh_page) = [sample_item 550 Movie Watching]"
    "getByStatus Completed (perform_all ?calls fresh_page) = []"
    unfolding getByStatus_def c by simp_all
  show ?thesis
    using h u l by blast
qed

end
